theory Spec2Isabelle
  imports Main
begin

section \<open>Python values, exceptions and built-ins used by the plugin\<close>

text \<open>
  The plugin \<^verbatim>\<open>plaso/parsers/winreg_plugins/amcache.py\<close> is modelled under the semantics of
  Python 3. An exception raised inside a decoder is not caught anywhere in the file except
  by the \<^verbatim>\<open>except ValueError\<close> clauses of the three Windows 10 integer branches, so every
  fallible expression returns a sum whose left side is the exception that leaves the
  decoder.
\<close>

datatype error = ValueError | TypeError

definition bind_err :: "error + 'a \<Rightarrow> ('a \<Rightarrow> error + 'b) \<Rightarrow> error + 'b" where
  "bind_err m f = (case m of Inl e \<Rightarrow> Inl e | Inr x \<Rightarrow> f x)"

text \<open>
  The object returned by \<^verbatim>\<open>registry_value.GetDataAsObject()\<close>: an integer, a string, a list
  of strings or \<^verbatim>\<open>None\<close>.
\<close>

datatype data_object = DInteger int | DString string | DList "string list" | DNone

text \<open>\<^verbatim>\<open>'{:s}'.format(x)\<close> and \<^verbatim>\<open>'{:d}'.format(x)\<close>.\<close>

definition digit_char :: "nat \<Rightarrow> char" where
  "digit_char d = char_of (48 + d)"

fun dec_digits :: "nat \<Rightarrow> string" where
  "dec_digits n =
     (if n < 10 then [digit_char n] else dec_digits (n div 10) @ [digit_char (n mod 10)])"

declare dec_digits.simps [simp del]

definition str_int :: "int \<Rightarrow> string" where
  "str_int n = (if n < 0 then CHR ''-'' # dec_digits (nat (- n)) else dec_digits (nat n))"

fun format_s :: "data_object \<Rightarrow> error + string" where
  "format_s (DString s) = Inr s"
| "format_s (DInteger n) = Inl ValueError"
| "format_s (DList xs) = Inl TypeError"
| "format_s DNone = Inl TypeError"

fun format_d :: "data_object \<Rightarrow> error + string" where
  "format_d (DInteger n) = Inr (str_int n)"
| "format_d (DString s) = Inl ValueError"
| "format_d (DList xs) = Inl TypeError"
| "format_d DNone = Inl TypeError"

text \<open>
  \<^verbatim>\<open>int(s, base)\<close> on a string, for base 10 and base 16: surrounding whitespace, one sign,
  for base 16 an optional \<^verbatim>\<open>0x\<close> prefix, then digits with single underscores between them.
  Characters are code points below 256. The limit of recent interpreters on the number of
  decimal digits is left out: the integers of a registry value have at most 64 bits.
\<close>

definition int_space :: "char \<Rightarrow> bool" where
  "int_space c = ((of_char c :: nat) \<in> {9, 10, 11, 12, 13, 32, 133, 160})"

definition digit_value :: "char \<Rightarrow> nat" where
  "digit_value c =
     (let k = (of_char c :: nat) in
      if 48 \<le> k \<and> k \<le> 57 then k - 48
      else if 97 \<le> k \<and> k \<le> 122 then k - 87
      else if 65 \<le> k \<and> k \<le> 90 then k - 55
      else 37)"

fun scan_digits :: "nat \<Rightarrow> nat \<Rightarrow> char \<Rightarrow> string \<Rightarrow> (nat \<times> string) option" where
  "scan_digits base acc prev [] = (if prev = CHR ''_'' then None else Some (acc, []))"
| "scan_digits base acc prev (c # cs) =
     (if c = CHR ''_'' then (if prev = CHR ''_'' then None else scan_digits base acc c cs)
      else if digit_value c < base then scan_digits base (acc * base + digit_value c) c cs
      else if prev = CHR ''_'' then None
      else Some (acc, c # cs))"

definition strip_sign :: "string \<Rightarrow> bool \<times> string" where
  "strip_sign s =
     (case s of
        [] \<Rightarrow> (False, s)
      | c # cs \<Rightarrow> if c = CHR ''+'' then (False, cs)
                  else if c = CHR ''-'' then (True, cs)
                  else (False, s))"

definition strip_base_prefix :: "nat \<Rightarrow> string \<Rightarrow> string" where
  "strip_base_prefix base s =
     (case s of
        c0 # c1 # cs \<Rightarrow>
          if c0 = CHR ''0'' \<and> base = 16 \<and> (c1 = CHR ''x'' \<or> c1 = CHR ''X'')
          then (case cs of [] \<Rightarrow> cs | u # us \<Rightarrow> if u = CHR ''_'' then us else cs)
          else s
      | _ \<Rightarrow> s)"

definition py_int :: "nat \<Rightarrow> string \<Rightarrow> error + int" where
  "py_int base s =
     (case strip_sign (dropWhile int_space s) of
        (neg, s2) \<Rightarrow>
          (case strip_base_prefix base s2 of
             [] \<Rightarrow> Inl ValueError
           | c # cs \<Rightarrow>
               if c = CHR ''_'' then Inl ValueError
               else (case scan_digits base 0 (CHR 0x00) (c # cs) of
                       None \<Rightarrow> Inl ValueError
                     | Some (v, rest) \<Rightarrow>
                         if length rest = length (c # cs) then Inl ValueError
                         else if dropWhile int_space rest \<noteq> [] then Inl ValueError
                         else Inr (if neg then - int v else int v))))"

text \<open>\<^verbatim>\<open>int('{:d}'.format(x))\<close>.\<close>

definition int_format_d :: "data_object \<Rightarrow> error + int" where
  "int_format_d x = bind_err (format_d x) (py_int 10)"

text \<open>
  \<^verbatim>\<open>try: int('{:d}'.format(x))\<close> \<^verbatim>\<open>except ValueError: int('{:s}'.format(x), 16)\<close>.
  Only \<^verbatim>\<open>ValueError\<close> is caught.
\<close>

definition int_format_d_except_hex :: "data_object \<Rightarrow> error + int" where
  "int_format_d_except_hex x =
     (case int_format_d x of
        Inr n \<Rightarrow> Inr n
      | Inl ValueError \<Rightarrow> bind_err (format_s x) (py_int 16)
      | Inl TypeError \<Rightarrow> Inl TypeError)"

text \<open>
  \<^verbatim>\<open>'\n'.join(x)\<close>: a list of strings is joined, a string is iterated character by
  character, an integer or \<^verbatim>\<open>None\<close> is not iterable.
\<close>

fun join_str :: "string \<Rightarrow> string list \<Rightarrow> string" where
  "join_str sep [] = []"
| "join_str sep [x] = x"
| "join_str sep (x # y # ys) = x @ sep @ join_str sep (y # ys)"

fun newline_join :: "data_object \<Rightarrow> error + string" where
  "newline_join (DList xs) = Inr (join_str [CHR 0x0A] xs)"
| "newline_join (DString s) = Inr (join_str [CHR 0x0A] (map (\<lambda>c. [c]) s))"
| "newline_join (DInteger n) = Inl TypeError"
| "newline_join DNone = Inl TypeError"

section \<open>Date strings\<close>

text \<open>
  \<^verbatim>\<open>datetime.datetime.strptime(s, '%m/%d/%Y %H:%M:%S')\<close> matches \<^verbatim>\<open>s\<close> against the regular
  expression
  \<^verbatim>\<open>(1[0-2]|0[1-9]|[1-9])/(3[0-1]|[1-2]\d|0[1-9]|[1-9]| [1-9])/(\d\d\d\d)\s+\<close>
  \<^verbatim>\<open>(2[0-3]|[0-1]\d|\d):([0-5]\d|\d):(6[0-1]|[0-5]\d|\d)\<close>
  with backtracking, requires that the match covers the whole string and builds a
  \<^verbatim>\<open>datetime\<close>, whose constructor checks the ranges of the fields.
\<close>

type_synonym char_class = "char \<times> char"

definition in_class :: "char_class \<Rightarrow> char \<Rightarrow> bool" where
  "in_class r c = ((of_char (fst r) :: nat) \<le> of_char c \<and> (of_char c :: nat) \<le> of_char (snd r))"

definition re_space :: "char \<Rightarrow> bool" where
  "re_space c = ((of_char c :: nat) \<in> {9, 10, 11, 12, 13, 28, 29, 30, 31, 32, 133, 160})"

fun match_seq :: "char_class list \<Rightarrow> string \<Rightarrow> (string \<times> string) option" where
  "match_seq [] s = Some ([], s)"
| "match_seq (r # rs) [] = None"
| "match_seq (r # rs) (c # cs) =
     (if in_class r c
      then (case match_seq rs cs of None \<Rightarrow> None | Some (g, rest) \<Rightarrow> Some (c # g, rest))
      else None)"

primrec re_group :: "char_class list list \<Rightarrow> (string \<Rightarrow> string \<Rightarrow> 'a option) \<Rightarrow> string \<Rightarrow> 'a option" where
  "re_group [] k s = None"
| "re_group (a # as) k s =
     (case match_seq a s of
        None \<Rightarrow> re_group as k s
      | Some (g, rest) \<Rightarrow> (case k g rest of None \<Rightarrow> re_group as k s | Some r \<Rightarrow> Some r))"

definition re_lit :: "char \<Rightarrow> (string \<Rightarrow> 'a option) \<Rightarrow> string \<Rightarrow> 'a option" where
  "re_lit c k s = (case s of [] \<Rightarrow> None | x # xs \<Rightarrow> if x = c then k xs else None)"

primrec re_spaces_upto :: "nat \<Rightarrow> (string \<Rightarrow> 'a option) \<Rightarrow> string \<Rightarrow> 'a option" where
  "re_spaces_upto 0 k s = None"
| "re_spaces_upto (Suc n) k s =
     (case k (drop (Suc n) s) of None \<Rightarrow> re_spaces_upto n k s | Some r \<Rightarrow> Some r)"

definition re_spaces :: "(string \<Rightarrow> 'a option) \<Rightarrow> string \<Rightarrow> 'a option" where
  "re_spaces k s = re_spaces_upto (length (takeWhile re_space s)) k s"

definition one :: "char \<Rightarrow> char_class" where
  "one c = (c, c)"

definition digit :: char_class where
  "digit = (CHR ''0'', CHR ''9'')"

definition re_m :: "char_class list list" where
  "re_m = [[one CHR ''1'', (CHR ''0'', CHR ''2'')], [one CHR ''0'', (CHR ''1'', CHR ''9'')],
           [(CHR ''1'', CHR ''9'')]]"

definition re_d :: "char_class list list" where
  "re_d = [[one CHR ''3'', (CHR ''0'', CHR ''1'')], [(CHR ''1'', CHR ''2''), digit],
           [one CHR ''0'', (CHR ''1'', CHR ''9'')], [(CHR ''1'', CHR ''9'')],
           [one CHR '' '', (CHR ''1'', CHR ''9'')]]"

definition re_Y :: "char_class list list" where
  "re_Y = [[digit, digit, digit, digit]]"

definition re_H :: "char_class list list" where
  "re_H = [[one CHR ''2'', (CHR ''0'', CHR ''3'')], [(CHR ''0'', CHR ''1''), digit], [digit]]"

definition re_M :: "char_class list list" where
  "re_M = [[(CHR ''0'', CHR ''5''), digit], [digit]]"

definition re_S :: "char_class list list" where
  "re_S = [[one CHR ''6'', (CHR ''0'', CHR ''1'')], [(CHR ''0'', CHR ''5''), digit], [digit]]"

type_synonym found_dict = "string \<times> string \<times> string \<times> string \<times> string \<times> string"

definition format_regex_match :: "string \<Rightarrow> (found_dict \<times> string) option" where
  "format_regex_match data_string =
     re_group re_m (\<lambda>m. re_lit CHR ''/'' (
     re_group re_d (\<lambda>d. re_lit CHR ''/'' (
     re_group re_Y (\<lambda>Y. re_spaces (
     re_group re_H (\<lambda>H. re_lit CHR '':'' (
     re_group re_M (\<lambda>M. re_lit CHR '':'' (
     re_group re_S (\<lambda>S rest. Some ((m, d, Y, H, M, S), rest)))))))))))) data_string"

record datetime =
  dt_year :: int
  dt_month :: int
  dt_day :: int
  dt_hour :: int
  dt_minute :: int
  dt_second :: int

definition is_leap :: "int \<Rightarrow> bool" where
  "is_leap y = (y mod 4 = 0 \<and> (y mod 100 \<noteq> 0 \<or> y mod 400 = 0))"

definition days_in_month :: "int \<Rightarrow> int \<Rightarrow> int" where
  "days_in_month y m =
     (if m = 2 then (if is_leap y then 29 else 28)
      else if m = 4 \<or> m = 6 \<or> m = 9 \<or> m = 11 then 30 else 31)"

definition datetime_new :: "int \<Rightarrow> int \<Rightarrow> int \<Rightarrow> int \<Rightarrow> int \<Rightarrow> int \<Rightarrow> error + datetime" where
  "datetime_new y m d H M S =
     (if \<not> (1 \<le> y \<and> y \<le> 9999) then Inl ValueError
      else if \<not> (1 \<le> m \<and> m \<le> 12) then Inl ValueError
      else if \<not> (1 \<le> d \<and> d \<le> days_in_month y m) then Inl ValueError
      else if \<not> (0 \<le> H \<and> H \<le> 23) then Inl ValueError
      else if \<not> (0 \<le> M \<and> M \<le> 59) then Inl ValueError
      else if \<not> (0 \<le> S \<and> S \<le> 59) then Inl ValueError
      else Inr \<lparr>dt_year = y, dt_month = m, dt_day = d, dt_hour = H, dt_minute = M, dt_second = S\<rparr>)"

definition strptime :: "string \<Rightarrow> error + datetime" where
  "strptime data_string =
     (case format_regex_match data_string of
        None \<Rightarrow> Inl ValueError
      | Some ((m, d, Y, H, M, S), rest) \<Rightarrow>
          if rest \<noteq> [] then Inl ValueError
          else
            bind_err (py_int 10 Y) (\<lambda>year.
            bind_err (py_int 10 m) (\<lambda>month.
            bind_err (py_int 10 d) (\<lambda>day.
            bind_err (py_int 10 H) (\<lambda>hour.
            bind_err (py_int 10 M) (\<lambda>minute.
            bind_err (py_int 10 S) (\<lambda>second.
              datetime_new year month day hour minute second)))))))"

text \<open>
  \<^verbatim>\<open>strftime('%s')\<close> prints the seconds since the Unix epoch of the date read as local
  time. The conversion depends on the time zone of the host, so it is a parameter
  \<open>mktime\<close> of everything that parses a date string.
\<close>

definition strftime_s :: "(datetime \<Rightarrow> int) \<Rightarrow> datetime \<Rightarrow> string" where
  "strftime_s mktime dt = str_int (mktime dt)"

text \<open>\<^verbatim>\<open>int(datetime.datetime.strptime(s, '%m/%d/%Y %H:%M:%S').strftime('%s'))\<close>.\<close>

definition date_string_to_int :: "(datetime \<Rightarrow> int) \<Rightarrow> string \<Rightarrow> error + int" where
  "date_string_to_int mktime s = bind_err (strptime s) (\<lambda>dt. py_int 10 (strftime_s mktime dt))"

text \<open>The conversion of a host whose local time is UTC.\<close>

definition days_before_year :: "int \<Rightarrow> int" where
  "days_before_year y = (y - 1) * 365 + (y - 1) div 4 - (y - 1) div 100 + (y - 1) div 400"

definition days_before_month :: "int \<Rightarrow> int \<Rightarrow> int" where
  "days_before_month y m = sum_list (map (days_in_month y) [1..m - 1])"

definition timegm :: "datetime \<Rightarrow> int" where
  "timegm dt =
     (days_before_year (dt_year dt) + days_before_month (dt_year dt) (dt_month dt)
        + dt_day dt - 719163) * 86400
     + dt_hour dt * 3600 + dt_minute dt * 60 + dt_second dt"

section \<open>Registry keys, event data and events\<close>

record WinRegistryValue =
  rv_name :: string
  rv_data :: data_object

text \<open>The two dfdatetime encodings the plugin uses.\<close>

datatype date_time = Filetime int | PosixTime int

record WinRegistryKey =
  path :: string
  last_written_time :: date_time
  GetValues :: "WinRegistryValue list"

definition number_of_values :: "WinRegistryKey \<Rightarrow> nat" where
  "number_of_values registry_key = length (GetValues registry_key)"

record AmcacheEventData =
  full_path :: "string option"
  sha1 :: "string option"
  productname :: "string option"
  companyname :: "string option"
  fileversion :: "string option"
  languagecode :: "int option"
  filesize :: "int option"
  filedescription :: "string option"
  linkerts :: "int option"
  lastmodifiedts :: "int option"
  createdts :: "int option"
  programid :: "string option"

definition AmcacheEventData_init :: AmcacheEventData where
  "AmcacheEventData_init =
     \<lparr>full_path = None, sha1 = None, productname = None, companyname = None,
      fileversion = None, languagecode = None, filesize = None, filedescription = None,
      linkerts = None, lastmodifiedts = None, createdts = None, programid = None\<rparr>"

text \<open>The language code of a program record holds an integer or a string.\<close>

datatype int_or_str = PyInt int | PyStr string

record AmcacheProgramEventData =
  name :: "string option"
  version :: "string option"
  publisher :: "string option"
  program_languagecode :: "int_or_str option"
  entrytype :: "string option"
  uninstallkey :: "string option"
  filepaths :: "string option"
  productcode :: "string option"
  packagecode :: "string option"
  msiproductcode :: "string option"
  msipackagecode :: "string option"
  files :: "string option"
  OSatinstall :: "string option"

definition AmcacheProgramEventData_init :: AmcacheProgramEventData where
  "AmcacheProgramEventData_init =
     \<lparr>name = None, version = None, publisher = None, program_languagecode = None,
      entrytype = None, uninstallkey = None, filepaths = None, productcode = None,
      packagecode = None, msiproductcode = None, msipackagecode = None, files = None,
      OSatinstall = None\<rparr>"

datatype time_description =
    TIME_DESCRIPTION_CREATION
  | TIME_DESCRIPTION_MODIFICATION
  | TIME_DESCRIPTION_INSTALLATION
  | TIME_DESCRIPTION_CHANGE

datatype event = DateTimeValuesEvent date_time time_description

datatype event_data = FileData AmcacheEventData | ProgramData AmcacheProgramEventData

text \<open>
  \<^verbatim>\<open>parser_mediator.ProduceEventWithEventData(event, event_data)\<close> hands one pair to the
  sink. A decoder returns the pairs it produced, in order, or the exception that left it.
  Every call of the sink comes after the loop over the values, so a decoder that raises
  has produced nothing.
\<close>

type_synonym emission = "event \<times> event_data"

text \<open>
  \<^verbatim>\<open>for registry_value in registry_key.GetValues(): ...\<close> with the loop body as a function
  of the value and the variables the body assigns.
\<close>

primrec for_values :: "('v \<Rightarrow> 's \<Rightarrow> error + 's) \<Rightarrow> 'v list \<Rightarrow> 's \<Rightarrow> error + 's" where
  "for_values body [] st = Inr st"
| "for_values body (v # vs) st =
     (case body v st of Inl e \<Rightarrow> Inl e | Inr st' \<Rightarrow> for_values body vs st')"

text \<open>Truth value of an attribute that is \<^verbatim>\<open>None\<close> or an integer.\<close>

fun truthy :: "int option \<Rightarrow> bool" where
  "truthy None = False"
| "truthy (Some n) = (n \<noteq> 0)"

definition startswith :: "string \<Rightarrow> string \<Rightarrow> bool" where
  "startswith s p = (take (length p) s = p)"

section \<open>Amcache10Parser\<close>

definition AMCACHE_ROOT_WIN10_FILE_KEY :: string where
  "AMCACHE_ROOT_WIN10_FILE_KEY = CHR 0x5C # ''Root'' @ CHR 0x5C # ''InventoryApplicationFile''"

definition AMCACHE_ROOT_WIN10_PROGRAM_KEY :: string where
  "AMCACHE_ROOT_WIN10_PROGRAM_KEY = CHR 0x5C # ''Root'' @ CHR 0x5C # ''InventoryApplication''"

text \<open>The body of the loop of \<^verbatim>\<open>_ProcessAMCacheWin10FileKey\<close> on \<open>(event_data, linkdateint)\<close>.\<close>

definition ProcessAMCacheWin10FileKey_value ::
  "(datetime \<Rightarrow> int) \<Rightarrow> WinRegistryValue \<Rightarrow> AmcacheEventData \<times> int option
    \<Rightarrow> error + AmcacheEventData \<times> int option" where
  "ProcessAMCacheWin10FileKey_value mktime registry_value =
     (\<lambda>(event_data, linkdateint).
      if rv_name registry_value = ''LinkDate'' then
        bind_err (format_s (rv_data registry_value)) (\<lambda>linkdatestr.
          if linkdatestr \<noteq> [] then
            bind_err (date_string_to_int mktime linkdatestr) (\<lambda>n. Inr (event_data, Some n))
          else Inr (event_data, linkdateint))
      else if rv_name registry_value = ''LowerCaseLongPath'' then
        bind_err (format_s (rv_data registry_value)) (\<lambda>s.
          Inr (event_data\<lparr>full_path := Some s\<rparr>, linkdateint))
      else if rv_name registry_value = ''FileId'' then
        bind_err (format_s (rv_data registry_value)) (\<lambda>s.
          Inr (event_data\<lparr>sha1 := Some (drop 4 s)\<rparr>, linkdateint))
      else if rv_name registry_value = ''ProductName'' then
        bind_err (format_s (rv_data registry_value)) (\<lambda>s.
          Inr (event_data\<lparr>productname := Some s\<rparr>, linkdateint))
      else if rv_name registry_value = ''Publisher'' then
        bind_err (format_s (rv_data registry_value)) (\<lambda>s.
          Inr (event_data\<lparr>companyname := Some s\<rparr>, linkdateint))
      else if rv_name registry_value = ''Version'' then
        bind_err (format_s (rv_data registry_value)) (\<lambda>s.
          Inr (event_data\<lparr>fileversion := Some s\<rparr>, linkdateint))
      else if rv_name registry_value = ''Language'' then
        bind_err (int_format_d_except_hex (rv_data registry_value)) (\<lambda>n.
          Inr (event_data\<lparr>languagecode := Some n\<rparr>, linkdateint))
      else if rv_name registry_value = ''Size'' then
        bind_err (int_format_d_except_hex (rv_data registry_value)) (\<lambda>n.
          Inr (event_data\<lparr>filesize := Some n\<rparr>, linkdateint))
      else if rv_name registry_value = ''ProgramId'' then
        bind_err (format_s (rv_data registry_value)) (\<lambda>s.
          Inr (event_data\<lparr>programid := Some s\<rparr>, linkdateint))
      else Inr (event_data, linkdateint))"

definition ProcessAMCacheWin10FileKey ::
  "(datetime \<Rightarrow> int) \<Rightarrow> WinRegistryKey \<Rightarrow> error + emission list" where
  "ProcessAMCacheWin10FileKey mktime registry_key =
     bind_err
       (for_values (ProcessAMCacheWin10FileKey_value mktime) (GetValues registry_key)
          (AmcacheEventData_init, None))
       (\<lambda>(event_data, linkdateint).
          Inr ([(DateTimeValuesEvent (last_written_time registry_key)
                   TIME_DESCRIPTION_MODIFICATION, FileData event_data)]
               @ (if truthy linkdateint
                  then (case linkdateint of
                          None \<Rightarrow> []
                        | Some n \<Rightarrow>
                            [(DateTimeValuesEvent (PosixTime n) TIME_DESCRIPTION_CREATION,
                              FileData event_data)])
                  else [])))"

text \<open>
  The body of the loop of \<^verbatim>\<open>_ProcessAMCacheWin10ProgramKey\<close> on
  \<open>(event_data, installdateint)\<close>.
\<close>

definition ProcessAMCacheWin10ProgramKey_value ::
  "(datetime \<Rightarrow> int) \<Rightarrow> WinRegistryValue \<Rightarrow> AmcacheProgramEventData \<times> int option
    \<Rightarrow> error + AmcacheProgramEventData \<times> int option" where
  "ProcessAMCacheWin10ProgramKey_value mktime registry_value =
     (\<lambda>(event_data, installdateint).
      if rv_name registry_value = ''InstallDate'' then
        bind_err (format_s (rv_data registry_value)) (\<lambda>installdatestr.
          if installdatestr \<noteq> [] then
            bind_err (date_string_to_int mktime installdatestr) (\<lambda>n. Inr (event_data, Some n))
          else Inr (event_data, installdateint))
      else if rv_name registry_value = ''Name'' then
        bind_err (format_s (rv_data registry_value)) (\<lambda>s.
          Inr (event_data\<lparr>name := Some s\<rparr>, installdateint))
      else if rv_name registry_value = ''Version'' then
        bind_err (format_s (rv_data registry_value)) (\<lambda>s.
          Inr (event_data\<lparr>version := Some s\<rparr>, installdateint))
      else if rv_name registry_value = ''Publisher'' then
        bind_err (format_s (rv_data registry_value)) (\<lambda>s.
          Inr (event_data\<lparr>publisher := Some s\<rparr>, installdateint))
      else if rv_name registry_value = ''Language'' then
        (case int_format_d (rv_data registry_value) of
           Inr n \<Rightarrow> Inr (event_data\<lparr>program_languagecode := Some (PyInt n)\<rparr>, installdateint)
         | Inl ValueError \<Rightarrow>
             bind_err (format_s (rv_data registry_value)) (\<lambda>s.
               Inr (event_data\<lparr>program_languagecode := Some (PyStr s)\<rparr>, installdateint))
         | Inl TypeError \<Rightarrow> Inl TypeError)
      else if rv_name registry_value = ''Type'' then
        bind_err (format_s (rv_data registry_value)) (\<lambda>s.
          Inr (event_data\<lparr>entrytype := Some s\<rparr>, installdateint))
      else if rv_name registry_value = ''RegistryKeyPath'' then
        bind_err (format_s (rv_data registry_value)) (\<lambda>s.
          Inr (event_data\<lparr>uninstallkey := Some s\<rparr>, installdateint))
      else if rv_name registry_value = ''ManifestPath'' then
        bind_err (format_s (rv_data registry_value)) (\<lambda>s.
          Inr (event_data\<lparr>filepaths := Some s\<rparr>, installdateint))
      else if rv_name registry_value = ''OSVersionAtInstallTime'' then
        bind_err (format_s (rv_data registry_value)) (\<lambda>s.
          Inr (event_data\<lparr>OSatinstall := Some s\<rparr>, installdateint))
      else if rv_name registry_value = ''MsiProductCode'' then
        bind_err (format_s (rv_data registry_value)) (\<lambda>s.
          Inr (event_data\<lparr>msiproductcode := Some s\<rparr>, installdateint))
      else if rv_name registry_value = ''MsiPackageCode'' then
        bind_err (format_s (rv_data registry_value)) (\<lambda>s.
          Inr (event_data\<lparr>msipackagecode := Some s\<rparr>, installdateint))
      else if rv_name registry_value = ''RootDirPath'' then
        bind_err (format_s (rv_data registry_value)) (\<lambda>s.
          Inr (event_data\<lparr>files := Some s\<rparr>, installdateint))
      else Inr (event_data, installdateint))"

definition ProcessAMCacheWin10ProgramKey ::
  "(datetime \<Rightarrow> int) \<Rightarrow> WinRegistryKey \<Rightarrow> error + emission list" where
  "ProcessAMCacheWin10ProgramKey mktime registry_key =
     bind_err
       (for_values (ProcessAMCacheWin10ProgramKey_value mktime) (GetValues registry_key)
          (AmcacheProgramEventData_init, None))
       (\<lambda>(event_data, installdateint).
          Inr ([(DateTimeValuesEvent (last_written_time registry_key)
                   TIME_DESCRIPTION_INSTALLATION, ProgramData event_data)]
               @ (case installdateint of
                    None \<Rightarrow> []
                  | Some n \<Rightarrow>
                      [(DateTimeValuesEvent (PosixTime n) TIME_DESCRIPTION_INSTALLATION,
                        ProgramData event_data)])))"

definition Amcache10_ExtractEvents ::
  "(datetime \<Rightarrow> int) \<Rightarrow> WinRegistryKey \<Rightarrow> error + emission list" where
  "Amcache10_ExtractEvents mktime registry_key =
     (if number_of_values registry_key = 0 then Inr []
      else if startswith (path registry_key) AMCACHE_ROOT_WIN10_FILE_KEY
        then ProcessAMCacheWin10FileKey mktime registry_key
      else if startswith (path registry_key) AMCACHE_ROOT_WIN10_PROGRAM_KEY
        then ProcessAMCacheWin10ProgramKey mktime registry_key
      else Inr [])"

section \<open>Amcache8Parser\<close>

definition AMCACHE_ROOT_FILE_KEY :: string where
  "AMCACHE_ROOT_FILE_KEY = CHR 0x5C # ''Root'' @ CHR 0x5C # ''File''"

definition AMCACHE_ROOT_PROGRAM_KEY :: string where
  "AMCACHE_ROOT_PROGRAM_KEY = CHR 0x5C # ''Root'' @ CHR 0x5C # ''Programs''"

abbreviation (input) AMCACHE_SHA1 :: string where "AMCACHE_SHA1 \<equiv> ''101''"
abbreviation (input) AMCACHE_DATETIME :: string where "AMCACHE_DATETIME \<equiv> ''17''"
abbreviation (input) AMCACHE_FULL_PATH :: string where "AMCACHE_FULL_PATH \<equiv> ''15''"
abbreviation (input) AMCACHE_PRODUCTNAME :: string where "AMCACHE_PRODUCTNAME \<equiv> ''0''"
abbreviation (input) AMCACHE_COMPANYNAME :: string where "AMCACHE_COMPANYNAME \<equiv> ''1''"
abbreviation (input) AMCACHE_FILEVERSION :: string where "AMCACHE_FILEVERSION \<equiv> ''5''"
abbreviation (input) AMCACHE_LANGUAGECODE :: string where "AMCACHE_LANGUAGECODE \<equiv> ''3''"
abbreviation (input) AMCACHE_FILESIZE :: string where "AMCACHE_FILESIZE \<equiv> ''6''"
abbreviation (input) AMCACHE_FILEDESCRIPTION :: string where "AMCACHE_FILEDESCRIPTION \<equiv> ''c''"
abbreviation (input) AMCACHE_LINKERTS :: string where "AMCACHE_LINKERTS \<equiv> ''f''"
abbreviation (input) AMCACHE_LASTMODIFIEDTS :: string where "AMCACHE_LASTMODIFIEDTS \<equiv> ''11''"
abbreviation (input) AMCACHE_CREATEDTS :: string where "AMCACHE_CREATEDTS \<equiv> ''12''"
abbreviation (input) AMCACHE_PROGRAMID :: string where "AMCACHE_PROGRAMID \<equiv> ''100''"

abbreviation (input) AMCACHE_P_INSTALLDATE :: string where "AMCACHE_P_INSTALLDATE \<equiv> ''a''"
abbreviation (input) AMCACHE_P_NAME :: string where "AMCACHE_P_NAME \<equiv> ''0''"
abbreviation (input) AMCACHE_P_VERSION :: string where "AMCACHE_P_VERSION \<equiv> ''1''"
abbreviation (input) AMCACHE_P_PUBLISHER :: string where "AMCACHE_P_PUBLISHER \<equiv> ''2''"
abbreviation (input) AMCACHE_P_LANGUAGECODE :: string where "AMCACHE_P_LANGUAGECODE \<equiv> ''3''"
abbreviation (input) AMCACHE_P_ENTRYTYPE :: string where "AMCACHE_P_ENTRYTYPE \<equiv> ''6''"
abbreviation (input) AMCACHE_P_UNINSTALLKEY :: string where "AMCACHE_P_UNINSTALLKEY \<equiv> ''7''"
abbreviation (input) AMCACHE_P_FILEPATHS :: string where "AMCACHE_P_FILEPATHS \<equiv> ''d''"
abbreviation (input) AMCACHE_P_PRODUCTCODE :: string where "AMCACHE_P_PRODUCTCODE \<equiv> ''f''"
abbreviation (input) AMCACHE_P_PACKAGECODE :: string where "AMCACHE_P_PACKAGECODE \<equiv> ''10''"
abbreviation (input) AMCACHE_P_MSIPRODUCTCODE :: string where "AMCACHE_P_MSIPRODUCTCODE \<equiv> ''11''"
abbreviation (input) AMCACHE_P_MSIPACKAGECODE :: string where "AMCACHE_P_MSIPACKAGECODE \<equiv> ''12''"
abbreviation (input) AMCACHE_P_FILES :: string where "AMCACHE_P_FILES \<equiv> ''Files''"

text \<open>The body of the loop of \<^verbatim>\<open>_ProcessAMCacheProgramKey\<close> on \<open>(event_data, amcache_datetime)\<close>.\<close>

definition ProcessAMCacheProgramKey_value ::
  "WinRegistryValue \<Rightarrow> AmcacheProgramEventData \<times> int \<Rightarrow> error + AmcacheProgramEventData \<times> int" where
  "ProcessAMCacheProgramKey_value registry_value =
     (\<lambda>(event_data, amcache_datetime).
      if rv_name registry_value = AMCACHE_P_INSTALLDATE then
        bind_err (int_format_d (rv_data registry_value)) (\<lambda>n. Inr (event_data, n))
      else if rv_name registry_value = AMCACHE_P_NAME then
        bind_err (format_s (rv_data registry_value)) (\<lambda>s.
          Inr (event_data\<lparr>name := Some s\<rparr>, amcache_datetime))
      else if rv_name registry_value = AMCACHE_P_VERSION then
        bind_err (format_s (rv_data registry_value)) (\<lambda>s.
          Inr (event_data\<lparr>version := Some s\<rparr>, amcache_datetime))
      else if rv_name registry_value = AMCACHE_P_PUBLISHER then
        bind_err (format_s (rv_data registry_value)) (\<lambda>s.
          Inr (event_data\<lparr>publisher := Some s\<rparr>, amcache_datetime))
      else if rv_name registry_value = AMCACHE_P_LANGUAGECODE then
        bind_err (format_s (rv_data registry_value)) (\<lambda>s.
          Inr (event_data\<lparr>program_languagecode := Some (PyStr s)\<rparr>, amcache_datetime))
      else if rv_name registry_value = AMCACHE_P_ENTRYTYPE then
        bind_err (format_s (rv_data registry_value)) (\<lambda>s.
          Inr (event_data\<lparr>entrytype := Some s\<rparr>, amcache_datetime))
      else if rv_name registry_value = AMCACHE_P_UNINSTALLKEY then
        (if rv_data registry_value \<noteq> DNone then
           bind_err (newline_join (rv_data registry_value)) (\<lambda>s.
             Inr (event_data\<lparr>uninstallkey := Some s\<rparr>, amcache_datetime))
         else Inr (event_data, amcache_datetime))
      else if rv_name registry_value = AMCACHE_P_FILEPATHS then
        bind_err (newline_join (rv_data registry_value)) (\<lambda>s.
          Inr (event_data\<lparr>filepaths := Some s\<rparr>, amcache_datetime))
      else if rv_name registry_value = AMCACHE_P_PRODUCTCODE then
        bind_err (format_s (rv_data registry_value)) (\<lambda>s.
          Inr (event_data\<lparr>productcode := Some s\<rparr>, amcache_datetime))
      else if rv_name registry_value = AMCACHE_P_PACKAGECODE then
        bind_err (format_s (rv_data registry_value)) (\<lambda>s.
          Inr (event_data\<lparr>packagecode := Some s\<rparr>, amcache_datetime))
      else if rv_name registry_value = AMCACHE_P_MSIPRODUCTCODE then
        bind_err (newline_join (rv_data registry_value)) (\<lambda>s.
          Inr (event_data\<lparr>msiproductcode := Some s\<rparr>, amcache_datetime))
      else if rv_name registry_value = AMCACHE_P_MSIPACKAGECODE then
        bind_err (newline_join (rv_data registry_value)) (\<lambda>s.
          Inr (event_data\<lparr>msipackagecode := Some s\<rparr>, amcache_datetime))
      else if rv_name registry_value = AMCACHE_P_FILES then
        (if rv_data registry_value \<noteq> DNone then
           bind_err (newline_join (rv_data registry_value)) (\<lambda>s.
             Inr (event_data\<lparr>files := Some s\<rparr>, amcache_datetime))
         else Inr (event_data, amcache_datetime))
      else Inr (event_data, amcache_datetime))"

definition ProcessAMCacheProgramKey :: "WinRegistryKey \<Rightarrow> error + emission list" where
  "ProcessAMCacheProgramKey registry_key =
     bind_err
       (for_values ProcessAMCacheProgramKey_value (GetValues registry_key)
          (AmcacheProgramEventData_init, 0))
       (\<lambda>(event_data, amcache_datetime).
          Inr [(DateTimeValuesEvent (PosixTime amcache_datetime) TIME_DESCRIPTION_INSTALLATION,
                ProgramData event_data)])"

text \<open>The body of the loop of \<^verbatim>\<open>_ProcessAMCacheFileKey\<close> on \<open>(event_data, amcache_datetime)\<close>.\<close>

definition ProcessAMCacheFileKey_value ::
  "WinRegistryValue \<Rightarrow> AmcacheEventData \<times> int \<Rightarrow> error + AmcacheEventData \<times> int" where
  "ProcessAMCacheFileKey_value registry_value =
     (\<lambda>(event_data, amcache_datetime).
      if rv_name registry_value = AMCACHE_DATETIME then
        bind_err (int_format_d (rv_data registry_value)) (\<lambda>n. Inr (event_data, n))
      else if rv_name registry_value = AMCACHE_FULL_PATH then
        bind_err (format_s (rv_data registry_value)) (\<lambda>s.
          Inr (event_data\<lparr>full_path := Some s\<rparr>, amcache_datetime))
      else if rv_name registry_value = AMCACHE_SHA1 then
        bind_err (format_s (rv_data registry_value)) (\<lambda>s.
          Inr (event_data\<lparr>sha1 := Some (drop 4 s)\<rparr>, amcache_datetime))
      else if rv_name registry_value = AMCACHE_PRODUCTNAME then
        bind_err (format_s (rv_data registry_value)) (\<lambda>s.
          Inr (event_data\<lparr>productname := Some s\<rparr>, amcache_datetime))
      else if rv_name registry_value = AMCACHE_COMPANYNAME then
        bind_err (format_s (rv_data registry_value)) (\<lambda>s.
          Inr (event_data\<lparr>companyname := Some s\<rparr>, amcache_datetime))
      else if rv_name registry_value = AMCACHE_FILEVERSION then
        bind_err (format_s (rv_data registry_value)) (\<lambda>s.
          Inr (event_data\<lparr>fileversion := Some s\<rparr>, amcache_datetime))
      else if rv_name registry_value = AMCACHE_LANGUAGECODE then
        bind_err (int_format_d (rv_data registry_value)) (\<lambda>n.
          Inr (event_data\<lparr>languagecode := Some n\<rparr>, amcache_datetime))
      else if rv_name registry_value = AMCACHE_FILESIZE then
        bind_err (int_format_d (rv_data registry_value)) (\<lambda>n.
          Inr (event_data\<lparr>filesize := Some n\<rparr>, amcache_datetime))
      else if rv_name registry_value = AMCACHE_FILEDESCRIPTION then
        bind_err (format_s (rv_data registry_value)) (\<lambda>s.
          Inr (event_data\<lparr>filedescription := Some s\<rparr>, amcache_datetime))
      else if rv_name registry_value = AMCACHE_LINKERTS then
        bind_err (int_format_d (rv_data registry_value)) (\<lambda>n.
          Inr (event_data\<lparr>linkerts := Some n\<rparr>, amcache_datetime))
      else if rv_name registry_value = AMCACHE_LASTMODIFIEDTS then
        bind_err (int_format_d (rv_data registry_value)) (\<lambda>n.
          Inr (event_data\<lparr>lastmodifiedts := Some n\<rparr>, amcache_datetime))
      else if rv_name registry_value = AMCACHE_CREATEDTS then
        bind_err (int_format_d (rv_data registry_value)) (\<lambda>n.
          Inr (event_data\<lparr>createdts := Some n\<rparr>, amcache_datetime))
      else if rv_name registry_value = AMCACHE_PROGRAMID then
        bind_err (format_s (rv_data registry_value)) (\<lambda>s.
          Inr (event_data\<lparr>programid := Some s\<rparr>, amcache_datetime))
      else Inr (event_data, amcache_datetime))"

text \<open>The events \<^verbatim>\<open>_ProcessAMCacheFileKey\<close> produces after its loop.\<close>

definition file_key_events :: "AmcacheEventData \<Rightarrow> int \<Rightarrow> emission list" where
  "file_key_events event_data amcache_datetime =
     [(DateTimeValuesEvent (Filetime amcache_datetime) TIME_DESCRIPTION_MODIFICATION,
       FileData event_data)]
     @ (if truthy (createdts event_data)
        then (case createdts event_data of
                None \<Rightarrow> []
              | Some n \<Rightarrow> [(DateTimeValuesEvent (Filetime n) TIME_DESCRIPTION_CREATION,
                            FileData event_data)])
        else [])
     @ (if truthy (lastmodifiedts event_data)
        then (case lastmodifiedts event_data of
                None \<Rightarrow> []
              | Some n \<Rightarrow> [(DateTimeValuesEvent (Filetime n) TIME_DESCRIPTION_MODIFICATION,
                            FileData event_data)])
        else [])
     @ (if truthy (linkerts event_data)
        then (case linkerts event_data of
                None \<Rightarrow> []
              | Some n \<Rightarrow> [(DateTimeValuesEvent (PosixTime n) TIME_DESCRIPTION_CHANGE,
                            FileData event_data)])
        else [])"

definition ProcessAMCacheFileKey :: "WinRegistryKey \<Rightarrow> error + emission list" where
  "ProcessAMCacheFileKey registry_key =
     bind_err
       (for_values ProcessAMCacheFileKey_value (GetValues registry_key)
          (AmcacheEventData_init, 0))
       (\<lambda>(event_data, amcache_datetime). Inr (file_key_events event_data amcache_datetime))"

definition Amcache8_ExtractEvents :: "WinRegistryKey \<Rightarrow> error + emission list" where
  "Amcache8_ExtractEvents registry_key =
     (if number_of_values registry_key = 0 then Inr []
      else if startswith (path registry_key) AMCACHE_ROOT_FILE_KEY
        then ProcessAMCacheFileKey registry_key
      else if startswith (path registry_key) AMCACHE_ROOT_PROGRAM_KEY
        then ProcessAMCacheProgramKey registry_key
      else Inr [])"

section \<open>Field tables and decodability\<close>

text \<open>The value names each loop compares against, in the order of its \<^verbatim>\<open>elif\<close> chain.\<close>

definition Amcache8_file_names :: "string list" where
  "Amcache8_file_names =
     [AMCACHE_DATETIME, AMCACHE_FULL_PATH, AMCACHE_SHA1, AMCACHE_PRODUCTNAME,
      AMCACHE_COMPANYNAME, AMCACHE_FILEVERSION, AMCACHE_LANGUAGECODE, AMCACHE_FILESIZE,
      AMCACHE_FILEDESCRIPTION, AMCACHE_LINKERTS, AMCACHE_LASTMODIFIEDTS, AMCACHE_CREATEDTS,
      AMCACHE_PROGRAMID]"

definition Amcache8_program_names :: "string list" where
  "Amcache8_program_names =
     [AMCACHE_P_INSTALLDATE, AMCACHE_P_NAME, AMCACHE_P_VERSION, AMCACHE_P_PUBLISHER,
      AMCACHE_P_LANGUAGECODE, AMCACHE_P_ENTRYTYPE, AMCACHE_P_UNINSTALLKEY,
      AMCACHE_P_FILEPATHS, AMCACHE_P_PRODUCTCODE, AMCACHE_P_PACKAGECODE,
      AMCACHE_P_MSIPRODUCTCODE, AMCACHE_P_MSIPACKAGECODE, AMCACHE_P_FILES]"

definition Amcache10_file_names :: "string list" where
  "Amcache10_file_names =
     [''LinkDate'', ''LowerCaseLongPath'', ''FileId'', ''ProductName'', ''Publisher'',
      ''Version'', ''Language'', ''Size'', ''ProgramId'']"

definition Amcache10_program_names :: "string list" where
  "Amcache10_program_names =
     [''InstallDate'', ''Name'', ''Version'', ''Publisher'', ''Language'', ''Type'',
      ''RegistryKeyPath'', ''ManifestPath'', ''OSVersionAtInstallTime'', ''MsiProductCode'',
      ''MsiPackageCode'', ''RootDirPath'']"

text \<open>
  A value raises in a decoder when the loop body, run on it, ends in an exception. Whether
  it does depends on the value alone, so the freshly initialised variables are used.
\<close>

definition raises8_file :: "WinRegistryValue \<Rightarrow> bool" where
  "raises8_file v = isl (ProcessAMCacheFileKey_value v (AmcacheEventData_init, 0))"

definition raises8_program :: "WinRegistryValue \<Rightarrow> bool" where
  "raises8_program v = isl (ProcessAMCacheProgramKey_value v (AmcacheProgramEventData_init, 0))"

definition raises10_file :: "(datetime \<Rightarrow> int) \<Rightarrow> WinRegistryValue \<Rightarrow> bool" where
  "raises10_file mktime v =
     isl (ProcessAMCacheWin10FileKey_value mktime v (AmcacheEventData_init, None))"

definition raises10_program :: "(datetime \<Rightarrow> int) \<Rightarrow> WinRegistryValue \<Rightarrow> bool" where
  "raises10_program mktime v =
     isl (ProcessAMCacheWin10ProgramKey_value mktime v (AmcacheProgramEventData_init, None))"

text \<open>The payload of the last value of a key that carries a given name.\<close>

definition last_value :: "string \<Rightarrow> WinRegistryValue list \<Rightarrow> data_object option" where
  "last_value n vs = map_option rv_data (find (\<lambda>v. rv_name v = n) (rev vs))"

text \<open>The events a decoder produced: none when it raised.\<close>

definition emissions_of :: "error + emission list \<Rightarrow> emission list" where
  "emissions_of r = (case r of Inl e \<Rightarrow> [] | Inr ems \<Rightarrow> ems)"

fun description_of :: "emission \<Rightarrow> time_description" where
  "description_of (DateTimeValuesEvent t d, ed) = d"

section \<open>Example keys\<close>

fun is_file_data :: "event_data \<Rightarrow> bool" where
  "is_file_data (FileData d) = True"
| "is_file_data (ProgramData d) = False"

definition example_file10_key :: WinRegistryKey where
  "example_file10_key =
     \<lparr>path = AMCACHE_ROOT_WIN10_FILE_KEY @ CHR 0x5C # ''logonui.exe'',
      last_written_time = Filetime 131580000000000000,
      GetValues =
        [\<lparr>rv_name = ''LowerCaseLongPath'', rv_data = DString ''c:/windows/system32/logonui.exe''\<rparr>,
         \<lparr>rv_name = ''FileId'', rv_data = DString ''0000152c524176f1''\<rparr>,
         \<lparr>rv_name = ''Language'', rv_data = DInteger 1033\<rparr>,
         \<lparr>rv_name = ''LinkDate'', rv_data = DString ''01/15/2018 10:00:00''\<rparr>]\<rparr>"

definition example_program10_key :: WinRegistryKey where
  "example_program10_key =
     \<lparr>path = AMCACHE_ROOT_WIN10_PROGRAM_KEY @ CHR 0x5C # ''0000f519feec486d'',
      last_written_time = Filetime 131580000000000000,
      GetValues =
        [\<lparr>rv_name = ''Name'', rv_data = DString ''Editor''\<rparr>,
         \<lparr>rv_name = ''Language'', rv_data = DInteger 1033\<rparr>,
         \<lparr>rv_name = ''InstallDate'', rv_data = DString ''01/15/2018 10:00:00''\<rparr>]\<rparr>"

definition example_file8_key :: WinRegistryKey where
  "example_file8_key =
     \<lparr>path = AMCACHE_ROOT_FILE_KEY @ CHR 0x5C # ''d1a2'',
      last_written_time = Filetime 131580000000000000,
      GetValues =
        [\<lparr>rv_name = AMCACHE_FULL_PATH, rv_data = DString ''c:/users/user/idafree50.tmp''\<rparr>,
         \<lparr>rv_name = AMCACHE_SHA1, rv_data = DString ''000082274eef0911''\<rparr>,
         \<lparr>rv_name = AMCACHE_DATETIME, rv_data = DInteger 131460650153024523\<rparr>,
         \<lparr>rv_name = AMCACHE_CREATEDTS, rv_data = DInteger 131460650151772758\<rparr>,
         \<lparr>rv_name = AMCACHE_LINKERTS, rv_data = DInteger 708992537\<rparr>]\<rparr>"

definition example_program8_key :: WinRegistryKey where
  "example_program8_key =
     \<lparr>path = AMCACHE_ROOT_PROGRAM_KEY @ CHR 0x5C # ''0006e76af556'',
      last_written_time = Filetime 131580000000000000,
      GetValues =
        [\<lparr>rv_name = AMCACHE_P_NAME, rv_data = DString ''Editor''\<rparr>,
         \<lparr>rv_name = AMCACHE_P_INSTALLDATE, rv_data = DInteger 1516010400\<rparr>,
         \<lparr>rv_name = AMCACHE_P_FILEPATHS, rv_data = DList [''c:/a'', ''c:/b'']\<rparr>]\<rparr>"

text \<open>A value under a name that no decoder knows.\<close>

definition unknown_value :: WinRegistryValue where
  "unknown_value = \<lparr>rv_name = ''BinaryType'', rv_data = DNone\<rparr>"

text \<open>Keys with one value that its decoder cannot read.\<close>

definition malformed_linkdate_key :: WinRegistryKey where
  "malformed_linkdate_key =
     \<lparr>path = AMCACHE_ROOT_WIN10_FILE_KEY @ CHR 0x5C # ''logonui.exe'',
      last_written_time = Filetime 131580000000000000,
      GetValues =
        [\<lparr>rv_name = ''LowerCaseLongPath'', rv_data = DString ''c:/windows/system32/logonui.exe''\<rparr>,
         \<lparr>rv_name = ''LinkDate'', rv_data = DString ''15/45/2018''\<rparr>]\<rparr>"

definition text_language_key :: WinRegistryKey where
  "text_language_key =
     \<lparr>path = AMCACHE_ROOT_FILE_KEY @ CHR 0x5C # ''d1a2'',
      last_written_time = Filetime 131580000000000000,
      GetValues =
        [\<lparr>rv_name = AMCACHE_FULL_PATH, rv_data = DString ''c:/users/user/idafree50.tmp''\<rparr>,
         \<lparr>rv_name = AMCACHE_LANGUAGECODE, rv_data = DString ''abc''\<rparr>]\<rparr>"

definition integer_name_key8 :: WinRegistryKey where
  "integer_name_key8 =
     \<lparr>path = AMCACHE_ROOT_PROGRAM_KEY @ CHR 0x5C # ''0006e76af556'',
      last_written_time = Filetime 131580000000000000,
      GetValues =
        [\<lparr>rv_name = AMCACHE_P_INSTALLDATE, rv_data = DInteger 1516010400\<rparr>,
         \<lparr>rv_name = AMCACHE_P_NAME, rv_data = DInteger 5\<rparr>]\<rparr>"

definition integer_name_key10 :: WinRegistryKey where
  "integer_name_key10 =
     \<lparr>path = AMCACHE_ROOT_WIN10_PROGRAM_KEY @ CHR 0x5C # ''0000f519feec486d'',
      last_written_time = Filetime 131580000000000000,
      GetValues =
        [\<lparr>rv_name = ''InstallDate'', rv_data = DString ''01/15/2018 10:00:00''\<rparr>,
         \<lparr>rv_name = ''Name'', rv_data = DInteger 5\<rparr>]\<rparr>"

text \<open>The value of a string of digits read in base 16.\<close>

definition base16_value :: "string \<Rightarrow> nat" where
  "base16_value s = foldl (\<lambda>a c. a * 16 + digit_value c) 0 s"

definition hex_language_key8 :: WinRegistryKey where
  "hex_language_key8 =
     \<lparr>path = AMCACHE_ROOT_FILE_KEY @ CHR 0x5C # ''d1a2'',
      last_written_time = Filetime 131580000000000000,
      GetValues = [\<lparr>rv_name = AMCACHE_LANGUAGECODE, rv_data = DString ''1a''\<rparr>]\<rparr>"

definition decimal_text_language_key10 :: WinRegistryKey where
  "decimal_text_language_key10 =
     \<lparr>path = AMCACHE_ROOT_WIN10_FILE_KEY @ CHR 0x5C # ''logonui.exe'',
      last_written_time = Filetime 131580000000000000,
      GetValues = [\<lparr>rv_name = ''Language'', rv_data = DString ''16''\<rparr>]\<rparr>"


text \<open>A key decodes when none of its values raises in the loop of the decoder.\<close>

definition decodable8_file :: "WinRegistryKey \<Rightarrow> bool" where
  "decodable8_file k = (\<forall>v\<in>set (GetValues k). \<not> raises8_file v)"

definition decodable8_program :: "WinRegistryKey \<Rightarrow> bool" where
  "decodable8_program k = (\<forall>v\<in>set (GetValues k). \<not> raises8_program v)"

definition decodable10_file :: "(datetime \<Rightarrow> int) \<Rightarrow> WinRegistryKey \<Rightarrow> bool" where
  "decodable10_file mktime k = (\<forall>v\<in>set (GetValues k). \<not> raises10_file mktime v)"

definition decodable10_program :: "(datetime \<Rightarrow> int) \<Rightarrow> WinRegistryKey \<Rightarrow> bool" where
  "decodable10_program mktime k = (\<forall>v\<in>set (GetValues k). \<not> raises10_program mktime v)"

text \<open>The events of a guard \<^verbatim>\<open>if x:\<close> around one call of the sink, as a function of \<open>x\<close>.\<close>

fun events_if_truthy :: "int option \<Rightarrow> (int \<Rightarrow> 'a) \<Rightarrow> 'a list" where
  "events_if_truthy None f = []"
| "events_if_truthy (Some n) f = (if n = 0 then [] else [f n])"

definition none_filepaths_key :: WinRegistryKey where
  "none_filepaths_key =
     \<lparr>path = AMCACHE_ROOT_PROGRAM_KEY @ CHR 0x5C # ''0006e76af556'',
      last_written_time = Filetime 131580000000000000,
      GetValues =
        [\<lparr>rv_name = AMCACHE_P_NAME, rv_data = DString ''Editor''\<rparr>,
         \<lparr>rv_name = AMCACHE_P_FILEPATHS, rv_data = DNone\<rparr>]\<rparr>"

definition zero_timestamp_key :: WinRegistryKey where
  "zero_timestamp_key =
     \<lparr>path = AMCACHE_ROOT_FILE_KEY @ CHR 0x5C # ''d1a2'',
      last_written_time = Filetime 131580000000000000,
      GetValues =
        [\<lparr>rv_name = AMCACHE_FULL_PATH, rv_data = DString ''c:/users/user/idafree50.tmp''\<rparr>,
         \<lparr>rv_name = AMCACHE_DATETIME, rv_data = DInteger 0\<rparr>,
         \<lparr>rv_name = AMCACHE_CREATEDTS, rv_data = DInteger 0\<rparr>]\<rparr>"

text \<open>
  The integer the loop of \<^verbatim>\<open>_ProcessAMCacheFileKey\<close> leaves in \<^verbatim>\<open>amcache_datetime\<close> when the key
  decodes: the payload of the last value named \<^verbatim>\<open>17\<close>, or the initial 0.
\<close>

definition amcache_datetime_of :: "WinRegistryKey \<Rightarrow> int" where
  "amcache_datetime_of k =
     (case last_value AMCACHE_DATETIME (GetValues k) of
        Some (DInteger n) \<Rightarrow> n
      | _ \<Rightarrow> 0)"

text \<open>
  The date the loop of a Windows 10 decoder leaves in its date variable when the key
  decodes: the parsed payload of the last value of that name whose payload is not the
  empty string, or \<^verbatim>\<open>None\<close>.
\<close>

definition nonempty_date :: "string \<Rightarrow> WinRegistryValue \<Rightarrow> bool" where
  "nonempty_date n v = (rv_name v = n \<and> rv_data v \<noteq> DString [])"

definition parsed_date :: "(datetime \<Rightarrow> int) \<Rightarrow> WinRegistryValue \<Rightarrow> int option" where
  "parsed_date mktime v =
     (case rv_data v of
        DString s \<Rightarrow> (case date_string_to_int mktime s of Inr t \<Rightarrow> Some t | Inl e \<Rightarrow> None)
      | _ \<Rightarrow> None)"

definition last_date :: "(datetime \<Rightarrow> int) \<Rightarrow> string \<Rightarrow> WinRegistryValue list \<Rightarrow> int option" where
  "last_date mktime n vs =
     (case find (nonempty_date n) (rev vs) of None \<Rightarrow> None | Some v \<Rightarrow> parsed_date mktime v)"

definition empty_install_key :: WinRegistryKey where
  "empty_install_key =
     \<lparr>path = AMCACHE_ROOT_WIN10_PROGRAM_KEY @ CHR 0x5C # ''0000f519feec486d'',
      last_written_time = Filetime 131580000000000000,
      GetValues =
        [\<lparr>rv_name = ''Name'', rv_data = DString ''Editor''\<rparr>,
         \<lparr>rv_name = ''InstallDate'', rv_data = DString []\<rparr>]\<rparr>"

definition epoch_link_key :: WinRegistryKey where
  "epoch_link_key =
     \<lparr>path = AMCACHE_ROOT_WIN10_FILE_KEY @ CHR 0x5C # ''logonui.exe'',
      last_written_time = Filetime 131580000000000000,
      GetValues = [\<lparr>rv_name = ''LinkDate'', rv_data = DString ''01/01/1970 00:00:00''\<rparr>]\<rparr>"

definition epoch_install_key :: WinRegistryKey where
  "epoch_install_key =
     \<lparr>path = AMCACHE_ROOT_WIN10_PROGRAM_KEY @ CHR 0x5C # ''0000f519feec486d'',
      last_written_time = Filetime 131580000000000000,
      GetValues = [\<lparr>rv_name = ''InstallDate'', rv_data = DString ''01/01/1970 00:00:00''\<rparr>]\<rparr>"

definition epoch_install_integer_name_key :: WinRegistryKey where
  "epoch_install_integer_name_key =
     \<lparr>path = AMCACHE_ROOT_WIN10_PROGRAM_KEY @ CHR 0x5C # ''0000f519feec486d'',
      last_written_time = Filetime 131580000000000000,
      GetValues =
        [\<lparr>rv_name = ''InstallDate'', rv_data = DString ''01/01/1970 00:00:00''\<rparr>,
         \<lparr>rv_name = ''Name'', rv_data = DInteger 5\<rparr>]\<rparr>"

section \<open>Properties of the built-ins\<close>

lemma digit_value_not_special:
  assumes "digit_value c < 17"
  shows "\<not> int_space c" "c \<noteq> CHR ''+''" "c \<noteq> CHR ''-''" "c \<noteq> CHR ''_''"
    "c \<noteq> CHR ''x''" "c \<noteq> CHR ''X''"
  using assms by (auto simp add: digit_value_def int_space_def Let_def split: if_splits)

lemma scan_digits_all:
  assumes "\<forall>c\<in>set xs. digit_value c < base" and "base < 17"
  shows "scan_digits base acc prev (xs @ ys) =
         scan_digits base (foldl (\<lambda>a c. a * base + digit_value c) acc xs) (last (prev # xs)) ys"
  using assms
proof (induction xs arbitrary: acc prev)
  case Nil
  then show ?case by simp
next
  case (Cons x xs)
  have "digit_value x < 17" using Cons.prems by auto
  then have "x \<noteq> CHR ''_''" by (rule digit_value_not_special)
  then show ?case using Cons by simp
qed

lemma py_int_digits:
  assumes "s \<noteq> []" and "\<forall>c\<in>set s. digit_value c < base" and "base < 17"
  shows "py_int base s = Inr (int (foldl (\<lambda>a c. a * base + digit_value c) 0 s))"
proof -
  obtain c cs where s: "s = c # cs" using assms(1) by (cases s) auto
  have c: "digit_value c < 17" using assms s by auto
  have sp: "dropWhile int_space s = s"
    using digit_value_not_special(1) [OF c] s by simp
  have sg: "strip_sign s = (False, s)"
    using digit_value_not_special(2,3) [OF c] s by (simp add: strip_sign_def)
  have pf: "strip_base_prefix base s = s"
  proof (cases cs)
    case Nil
    then show ?thesis using s by (simp add: strip_base_prefix_def)
  next
    case (Cons d ds)
    then have "digit_value d < 17" using assms s by auto
    then have "d \<noteq> CHR ''x''" "d \<noteq> CHR ''X''" by (rule digit_value_not_special)+
    then show ?thesis using s Cons by (simp add: strip_base_prefix_def)
  qed
  have sc: "scan_digits base 0 (CHR 0x00) (s @ []) =
      scan_digits base (foldl (\<lambda>a c. a * base + digit_value c) 0 s) (last (CHR 0x00 # s)) []"
    using assms(2,3) by (rule scan_digits_all)
  have "last (CHR 0x00 # s) \<noteq> CHR ''_''"
    using s assms(2,3) digit_value_not_special(4) [of "last s"] last_in_set [of s] by auto
  then have "scan_digits base 0 (CHR 0x00) s =
      Some (foldl (\<lambda>a c. a * base + digit_value c) 0 s, [])"
    using sc by simp
  then show ?thesis
    using sp sg pf s digit_value_not_special(4) [OF c] by (simp add: py_int_def)
qed

lemma digit_value_digit_char: "d < 10 \<Longrightarrow> digit_value (digit_char d) = d"
  by (simp add: digit_value_def digit_char_def Let_def)

lemma dec_digits_value:
  "foldl (\<lambda>a c. a * 10 + digit_value c) 0 (dec_digits n) = n"
proof (induction n rule: dec_digits.induct)
  case (1 n)
  show ?case
  proof (cases "n < 10")
    case True
    then show ?thesis by (subst dec_digits.simps) (simp add: digit_value_digit_char)
  next
    case False
    then show ?thesis using 1
      by (subst dec_digits.simps) (simp add: digit_value_digit_char)
  qed
qed

lemma dec_digits_digits: "c \<in> set (dec_digits n) \<Longrightarrow> digit_value c < 10"
proof (induction n rule: dec_digits.induct)
  case (1 n)
  show ?case
  proof (cases "n < 10")
    case True
    then show ?thesis using "1.prems"
      by (subst (asm) dec_digits.simps) (simp add: digit_value_digit_char)
  next
    case False
    then show ?thesis using 1
      by (subst (asm) (2) dec_digits.simps) (auto simp add: digit_value_digit_char)
  qed
qed

lemma dec_digits_nonempty: "dec_digits n \<noteq> []"
  by (subst dec_digits.simps) simp

lemma py_int_dec_digits: "py_int 10 (dec_digits n) = Inr (int n)"
  using py_int_digits [of "dec_digits n" 10]
  by (simp add: dec_digits_nonempty dec_digits_digits dec_digits_value)

lemma py_int_minus:
  assumes "py_int 10 s = Inr v" and "s \<noteq> []" and "digit_value (hd s) < 10"
  shows "py_int 10 (CHR ''-'' # s) = Inr (- v)"
proof -
  obtain c cs where s: "s = c # cs" using assms(2) by (cases s) auto
  have c: "digit_value c < 17" using assms(3) s by simp
  have "dropWhile int_space s = s" "strip_sign s = (False, s)"
    using digit_value_not_special(1,2,3) [OF c] s by (simp_all add: strip_sign_def)
  then show ?thesis
    using assms(1) s
    by (auto simp add: py_int_def int_space_def strip_sign_def
        split: list.splits option.splits if_splits)
qed

text \<open>Printing an integer in decimal and reading it back gives the integer.\<close>

lemma py_int_str_int: "py_int 10 (str_int n) = Inr n"
proof (cases "n < 0")
  case True
  have "digit_value (hd (dec_digits (nat (- n)))) < 10"
    using dec_digits_digits [of "hd (dec_digits (nat (- n)))" "nat (- n)"] dec_digits_nonempty
    by simp
  then have "py_int 10 (CHR ''-'' # dec_digits (nat (- n))) = Inr (- int (nat (- n)))"
    using py_int_minus [OF py_int_dec_digits dec_digits_nonempty] by simp
  then show ?thesis using True by (simp add: str_int_def)
next
  case False
  then show ?thesis by (simp add: str_int_def py_int_dec_digits)
qed

lemma int_format_d_cases:
  "int_format_d (DInteger n) = Inr n"
  "int_format_d (DString s) = Inl ValueError"
  "int_format_d (DList xs) = Inl TypeError"
  "int_format_d DNone = Inl TypeError"
  by (simp_all add: int_format_d_def bind_err_def py_int_str_int)

lemma int_format_d_except_hex_cases:
  "int_format_d_except_hex (DInteger n) = Inr n"
  "int_format_d_except_hex (DString s) = py_int 16 s"
  "int_format_d_except_hex (DList xs) = Inl TypeError"
  "int_format_d_except_hex DNone = Inl TypeError"
  by (simp_all add: int_format_d_except_hex_def int_format_d_cases bind_err_def)

lemma date_string_to_int_strptime:
  "date_string_to_int mktime s = bind_err (strptime s) (\<lambda>dt. Inr (mktime dt))"
  by (simp add: date_string_to_int_def strftime_s_def py_int_str_int)

section \<open>Properties of the loop over the values\<close>

lemma find_snoc:
  "find Q (xs @ [v]) =
     (case find Q xs of None \<Rightarrow> (if Q v then Some v else None) | Some x \<Rightarrow> Some x)"
  by (induction xs) simp_all

lemma for_values_append:
  "for_values body (xs @ ys) st = bind_err (for_values body xs st) (for_values body ys)"
  by (induction xs arbitrary: st) (simp_all add: bind_err_def split: sum.splits)

lemma for_values_skip:
  assumes "\<And>st. body v st = Inr st"
  shows "for_values body (xs @ v # ys) st = for_values body (xs @ ys) st"
  by (cases "for_values body xs st") (simp_all add: for_values_append bind_err_def assms)

lemma for_values_returns:
  assumes "\<And>v st. v \<in> set vs \<Longrightarrow> \<not> isl (body v st)"
  shows "\<not> isl (for_values body vs st)"
  using assms
proof (induction vs arbitrary: st)
  case Nil
  then show ?case by simp
next
  case (Cons v vs)
  have "\<not> isl (body v st)" using Cons.prems by simp
  then obtain st' where "body v st = Inr st'" by (cases "body v st") auto
  then show ?case using Cons by simp
qed

lemma for_values_raises:
  assumes "v \<in> set vs" and "\<And>st. isl (body v st)"
  shows "isl (for_values body vs st)"
  using assms(1)
proof (induction vs arbitrary: st)
  case Nil
  then show ?case by simp
next
  case (Cons w ws)
  show ?case
  proof (cases "body w st")
    case (Inl e)
    then show ?thesis by simp
  next
    case (Inr st')
    have "w \<noteq> v" using Inr assms(2) [of st] by auto
    then have "v \<in> set ws" using Cons.prems by auto
    then show ?thesis using Cons.IH Inr by simp
  qed
qed

text \<open>
  A variable that only the values selected by \<open>Q\<close> assign holds, after the loop, what the
  last such value assigned, or its initial value when there is none.
\<close>

lemma for_values_last:
  assumes step: "\<And>v st st'. body v st = Inr st' \<Longrightarrow> g st' = (if Q v then h v else g st)"
    and run: "for_values body vs st = Inr st'"
  shows "g st' = (case find Q (rev vs) of None \<Rightarrow> g st | Some v \<Rightarrow> h v)"
  using run
proof (induction vs arbitrary: st)
  case Nil
  then show ?case by simp
next
  case (Cons v vs)
  from Cons.prems obtain st1 where b: "body v st = Inr st1"
    and r: "for_values body vs st1 = Inr st'"
    by (cases "body v st") auto
  have "g st' = (case find Q (rev vs) of None \<Rightarrow> g st1 | Some w \<Rightarrow> h w)"
    using Cons.IH r by simp
  then show ?case using step [OF b] by (simp add: find_snoc split: option.splits)
qed

section \<open>Dates used in the examples\<close>

lemma strptime_example:
  "strptime ''01/15/2018 10:00:00'' =
     Inr \<lparr>dt_year = 2018, dt_month = 1, dt_day = 15, dt_hour = 10, dt_minute = 0,
          dt_second = 0\<rparr>"
  by code_simp

lemma date_example: "date_string_to_int timegm ''01/15/2018 10:00:00'' = Inr 1516010400"
  unfolding date_string_to_int_strptime strptime_example by code_simp

lemma strptime_epoch:
  "strptime ''01/01/1970 00:00:00'' =
     Inr \<lparr>dt_year = 1970, dt_month = 1, dt_day = 1, dt_hour = 0, dt_minute = 0,
          dt_second = 0\<rparr>"
  by code_simp

lemma date_epoch: "date_string_to_int timegm ''01/01/1970 00:00:00'' = Inr 0"
  unfolding date_string_to_int_strptime strptime_epoch by code_simp

lemma strptime_malformed: "strptime ''15/45/2018'' = Inl ValueError"
  by code_simp

lemma date_malformed: "date_string_to_int mktime ''15/45/2018'' = Inl ValueError"
  by (simp add: date_string_to_int_strptime strptime_malformed bind_err_def)

section \<open>The router of Amcache10Parser\<close>

lemma startswith_file_program:
  assumes "startswith p AMCACHE_ROOT_WIN10_FILE_KEY"
  shows "startswith p AMCACHE_ROOT_WIN10_PROGRAM_KEY"
proof -
  have e: "AMCACHE_ROOT_WIN10_FILE_KEY = AMCACHE_ROOT_WIN10_PROGRAM_KEY @ ''File''"
    by (simp add: AMCACHE_ROOT_WIN10_FILE_KEY_def AMCACHE_ROOT_WIN10_PROGRAM_KEY_def)
  have "take (length AMCACHE_ROOT_WIN10_PROGRAM_KEY) (take (length AMCACHE_ROOT_WIN10_FILE_KEY) p)
      = take (length AMCACHE_ROOT_WIN10_PROGRAM_KEY) AMCACHE_ROOT_WIN10_FILE_KEY"
    using assms by (simp add: startswith_def)
  then show ?thesis
    by (simp add: startswith_def e min_def)
qed

lemma file10_emissions:
  "ProcessAMCacheWin10FileKey mktime k = Inr ems \<Longrightarrow>
   ems \<noteq> [] \<and> (\<forall>e\<in>set ems. is_file_data (snd e))"
  by (auto simp add: ProcessAMCacheWin10FileKey_def bind_err_def
      split: sum.splits prod.splits option.splits if_splits)

lemma program10_emissions:
  "ProcessAMCacheWin10ProgramKey mktime k = Inr ems \<Longrightarrow>
   (\<forall>e\<in>set ems. \<not> is_file_data (snd e))"
  by (auto simp add: ProcessAMCacheWin10ProgramKey_def bind_err_def
      split: sum.splits prod.splits option.splits if_splits)

text \<open>
  Claim C9. A key of the Windows 10 hive that has at least one value and whose path starts
  with the file prefix \<^verbatim>\<open>\Root\InventoryApplicationFile\<close> also starts with the program
  prefix \<^verbatim>\<open>\Root\InventoryApplication\<close>; \<^verbatim>\<open>ExtractEvents\<close> tests the file prefix first and
  hands the key to the file decoder. Every event it produces carries a file record, and
  whenever the decoder returns, the result is not what the program decoder would have
  produced.
\<close>

theorem win10_router_file_prefix_first:
  assumes "number_of_values k \<noteq> 0"
    and "startswith (path k) AMCACHE_ROOT_WIN10_FILE_KEY"
  shows "startswith (path k) AMCACHE_ROOT_WIN10_PROGRAM_KEY
    \<and> Amcache10_ExtractEvents mktime k = ProcessAMCacheWin10FileKey mktime k
    \<and> (\<forall>e\<in>set (emissions_of (Amcache10_ExtractEvents mktime k)). is_file_data (snd e))
    \<and> (isl (Amcache10_ExtractEvents mktime k)
        \<or> Amcache10_ExtractEvents mktime k \<noteq> ProcessAMCacheWin10ProgramKey mktime k)"
proof -
  have r: "Amcache10_ExtractEvents mktime k = ProcessAMCacheWin10FileKey mktime k"
    using assms by (simp add: Amcache10_ExtractEvents_def)
  have f: "\<forall>e\<in>set (emissions_of (ProcessAMCacheWin10FileKey mktime k)). is_file_data (snd e)"
    using file10_emissions [of mktime k]
    by (cases "ProcessAMCacheWin10FileKey mktime k") (simp_all add: emissions_of_def)
  have d: "isl (ProcessAMCacheWin10FileKey mktime k)
        \<or> ProcessAMCacheWin10FileKey mktime k \<noteq> ProcessAMCacheWin10ProgramKey mktime k"
  proof (cases "ProcessAMCacheWin10FileKey mktime k")
    case (Inl e)
    then show ?thesis by simp
  next
    case (Inr ems)
    then obtain e where "e \<in> set ems" "is_file_data (snd e)"
      using file10_emissions [OF Inr] by (cases ems) auto
    then show ?thesis using Inr program10_emissions [of mktime k ems] by auto
  qed
  show ?thesis using r f d startswith_file_program [OF assms(2)] by simp
qed

theorem win10_router_file_prefix_first_witness:
  "number_of_values example_file10_key \<noteq> 0
   \<and> startswith (path example_file10_key) AMCACHE_ROOT_WIN10_FILE_KEY
   \<and> startswith (path example_file10_key) AMCACHE_ROOT_WIN10_PROGRAM_KEY
   \<and> Amcache10_ExtractEvents timegm example_file10_key
       = ProcessAMCacheWin10FileKey timegm example_file10_key
   \<and> \<not> isl (Amcache10_ExtractEvents timegm example_file10_key)
   \<and> Amcache10_ExtractEvents timegm example_file10_key
       \<noteq> ProcessAMCacheWin10ProgramKey timegm example_file10_key"
proof -
  have h1: "number_of_values example_file10_key \<noteq> 0"
    by (simp add: example_file10_key_def number_of_values_def)
  have h2: "startswith (path example_file10_key) AMCACHE_ROOT_WIN10_FILE_KEY"
    by (simp add: example_file10_key_def startswith_def AMCACHE_ROOT_WIN10_FILE_KEY_def)
  have h3: "\<not> isl (ProcessAMCacheWin10FileKey timegm example_file10_key)"
    by (simp add: ProcessAMCacheWin10FileKey_def ProcessAMCacheWin10FileKey_value_def
        example_file10_key_def bind_err_def date_example int_format_d_except_hex_cases)
  show ?thesis
    using h1 h2 h3 win10_router_file_prefix_first [OF h1 h2, of timegm] by auto
qed

section \<open>Values under unknown names\<close>

lemma file8_skip:
  "rv_name v \<notin> set Amcache8_file_names \<Longrightarrow> ProcessAMCacheFileKey_value v st = Inr st"
  by (cases st) (simp add: ProcessAMCacheFileKey_value_def Amcache8_file_names_def)

lemma program8_skip:
  "rv_name v \<notin> set Amcache8_program_names \<Longrightarrow> ProcessAMCacheProgramKey_value v st = Inr st"
  by (cases st) (simp add: ProcessAMCacheProgramKey_value_def Amcache8_program_names_def)

lemma file10_skip:
  "rv_name v \<notin> set Amcache10_file_names \<Longrightarrow>
   ProcessAMCacheWin10FileKey_value mktime v st = Inr st"
  by (cases st) (simp add: ProcessAMCacheWin10FileKey_value_def Amcache10_file_names_def)

lemma program10_skip:
  "rv_name v \<notin> set Amcache10_program_names \<Longrightarrow>
   ProcessAMCacheWin10ProgramKey_value mktime v st = Inr st"
  by (cases st) (simp add: ProcessAMCacheWin10ProgramKey_value_def Amcache10_program_names_def)

text \<open>
  Claim C8. In each of the four decoders a value whose name is not one of the names the
  loop compares against is ignored: it does not raise, and the decoder returns for the key
  what it returns for the same key with that value removed (the same record in the same
  events, or the same exception of another value).
\<close>

theorem unknown_value_names_ignored:
  "(GetValues k = xs @ v # ys \<and> rv_name v \<notin> set Amcache8_file_names \<longrightarrow>
      \<not> raises8_file v
      \<and> ProcessAMCacheFileKey k = ProcessAMCacheFileKey (k\<lparr>GetValues := xs @ ys\<rparr>))
   \<and> (GetValues k = xs @ v # ys \<and> rv_name v \<notin> set Amcache8_program_names \<longrightarrow>
      \<not> raises8_program v
      \<and> ProcessAMCacheProgramKey k = ProcessAMCacheProgramKey (k\<lparr>GetValues := xs @ ys\<rparr>))
   \<and> (GetValues k = xs @ v # ys \<and> rv_name v \<notin> set Amcache10_file_names \<longrightarrow>
      \<not> raises10_file mktime v
      \<and> ProcessAMCacheWin10FileKey mktime k
          = ProcessAMCacheWin10FileKey mktime (k\<lparr>GetValues := xs @ ys\<rparr>))
   \<and> (GetValues k = xs @ v # ys \<and> rv_name v \<notin> set Amcache10_program_names \<longrightarrow>
      \<not> raises10_program mktime v
      \<and> ProcessAMCacheWin10ProgramKey mktime k
          = ProcessAMCacheWin10ProgramKey mktime (k\<lparr>GetValues := xs @ ys\<rparr>))"
proof (intro conjI impI)
  assume a: "GetValues k = xs @ v # ys \<and> rv_name v \<notin> set Amcache8_file_names"
  then show "\<not> raises8_file v" by (simp add: raises8_file_def file8_skip)
  show "ProcessAMCacheFileKey k = ProcessAMCacheFileKey (k\<lparr>GetValues := xs @ ys\<rparr>)"
    using a for_values_skip [of ProcessAMCacheFileKey_value v xs ys]
    by (simp add: ProcessAMCacheFileKey_def file8_skip)
next
  assume a: "GetValues k = xs @ v # ys \<and> rv_name v \<notin> set Amcache8_program_names"
  then show "\<not> raises8_program v" by (simp add: raises8_program_def program8_skip)
  show "ProcessAMCacheProgramKey k = ProcessAMCacheProgramKey (k\<lparr>GetValues := xs @ ys\<rparr>)"
    using a for_values_skip [of ProcessAMCacheProgramKey_value v xs ys]
    by (simp add: ProcessAMCacheProgramKey_def program8_skip)
next
  assume a: "GetValues k = xs @ v # ys \<and> rv_name v \<notin> set Amcache10_file_names"
  then show "\<not> raises10_file mktime v" by (simp add: raises10_file_def file10_skip)
  show "ProcessAMCacheWin10FileKey mktime k
      = ProcessAMCacheWin10FileKey mktime (k\<lparr>GetValues := xs @ ys\<rparr>)"
    using a for_values_skip [of "ProcessAMCacheWin10FileKey_value mktime" v xs ys]
    by (simp add: ProcessAMCacheWin10FileKey_def file10_skip)
next
  assume a: "GetValues k = xs @ v # ys \<and> rv_name v \<notin> set Amcache10_program_names"
  then show "\<not> raises10_program mktime v" by (simp add: raises10_program_def program10_skip)
  show "ProcessAMCacheWin10ProgramKey mktime k
      = ProcessAMCacheWin10ProgramKey mktime (k\<lparr>GetValues := xs @ ys\<rparr>)"
    using a for_values_skip [of "ProcessAMCacheWin10ProgramKey_value mktime" v xs ys]
    by (simp add: ProcessAMCacheWin10ProgramKey_def program10_skip)
qed

lemma unknown_value_name:
  "rv_name unknown_value \<notin> set Amcache8_file_names"
  "rv_name unknown_value \<notin> set Amcache8_program_names"
  "rv_name unknown_value \<notin> set Amcache10_file_names"
  "rv_name unknown_value \<notin> set Amcache10_program_names"
  by (simp_all add: unknown_value_def Amcache8_file_names_def Amcache8_program_names_def
      Amcache10_file_names_def Amcache10_program_names_def)

theorem unknown_value_names_ignored_witness:
  "ProcessAMCacheFileKey
     (example_file8_key\<lparr>GetValues := unknown_value # GetValues example_file8_key\<rparr>)
     = ProcessAMCacheFileKey example_file8_key
   \<and> ProcessAMCacheProgramKey
     (example_program8_key\<lparr>GetValues := unknown_value # GetValues example_program8_key\<rparr>)
     = ProcessAMCacheProgramKey example_program8_key
   \<and> ProcessAMCacheWin10FileKey timegm
     (example_file10_key\<lparr>GetValues := unknown_value # GetValues example_file10_key\<rparr>)
     = ProcessAMCacheWin10FileKey timegm example_file10_key
   \<and> ProcessAMCacheWin10ProgramKey timegm
     (example_program10_key\<lparr>GetValues := unknown_value # GetValues example_program10_key\<rparr>)
     = ProcessAMCacheWin10ProgramKey timegm example_program10_key
   \<and> \<not> raises8_file unknown_value \<and> \<not> raises8_program unknown_value
   \<and> \<not> raises10_file timegm unknown_value \<and> \<not> raises10_program timegm unknown_value"
  using unknown_value_name
    unknown_value_names_ignored [of
      "example_file8_key\<lparr>GetValues := unknown_value # GetValues example_file8_key\<rparr>"
      "[]" unknown_value "GetValues example_file8_key" timegm]
    unknown_value_names_ignored [of
      "example_program8_key\<lparr>GetValues := unknown_value # GetValues example_program8_key\<rparr>"
      "[]" unknown_value "GetValues example_program8_key" timegm]
    unknown_value_names_ignored [of
      "example_file10_key\<lparr>GetValues := unknown_value # GetValues example_file10_key\<rparr>"
      "[]" unknown_value "GetValues example_file10_key" timegm]
    unknown_value_names_ignored [of
      "example_program10_key\<lparr>GetValues := unknown_value # GetValues example_program10_key\<rparr>"
      "[]" unknown_value "GetValues example_program10_key" timegm]
  by simp

section \<open>Values that raise\<close>

lemma isl_bind_err_Inr: "isl (bind_err m (\<lambda>x. Inr (f x))) = isl m"
  by (cases m) (simp_all add: bind_err_def)

lemma file8_isl:
  "isl (ProcessAMCacheFileKey_value v st) = isl (ProcessAMCacheFileKey_value v st')"
  by (cases st; cases st')
     (simp add: ProcessAMCacheFileKey_value_def isl_bind_err_Inr)

lemma program8_isl:
  "isl (ProcessAMCacheProgramKey_value v st) = isl (ProcessAMCacheProgramKey_value v st')"
  by (cases st; cases st')
     (simp add: ProcessAMCacheProgramKey_value_def isl_bind_err_Inr)

lemma bind_err_simps:
  "bind_err (Inl e) f = Inl e"
  "bind_err (Inr x) f = f x"
  by (simp_all add: bind_err_def)

lemma file10_isl:
  "isl (ProcessAMCacheWin10FileKey_value mktime v st)
     = isl (ProcessAMCacheWin10FileKey_value mktime v st')"
  by (cases st; cases st'; cases "format_s (rv_data v)")
     (simp_all add: ProcessAMCacheWin10FileKey_value_def isl_bind_err_Inr bind_err_simps)

lemma program10_isl:
  "isl (ProcessAMCacheWin10ProgramKey_value mktime v st)
     = isl (ProcessAMCacheWin10ProgramKey_value mktime v st')"
  by (cases st; cases st'; cases "rv_data v")
     (simp_all add: ProcessAMCacheWin10ProgramKey_value_def isl_bind_err_Inr bind_err_simps
       int_format_d_cases)

lemma isl_bind_err: "isl m \<Longrightarrow> isl (bind_err m f)"
  by (cases m) (simp_all add: bind_err_def)

lemma isl_emissions_of: "isl r \<Longrightarrow> emissions_of r = []"
  by (cases r) (simp_all add: emissions_of_def)

text \<open>
  Claim C1, as the code has it. No decoder confines a failure to one field. When a value
  of the key raises in the loop body (\<^verbatim>\<open>ValueError\<close> or \<^verbatim>\<open>TypeError\<close>), the exception leaves the
  decoder: the scan stops there and the decoder produces no event at all for the key, in
  each of the four decoders.
\<close>

theorem undecodable_value_aborts_record:
  "(v \<in> set (GetValues k) \<and> raises8_file v \<longrightarrow>
      isl (ProcessAMCacheFileKey k) \<and> emissions_of (ProcessAMCacheFileKey k) = [])
   \<and> (v \<in> set (GetValues k) \<and> raises8_program v \<longrightarrow>
      isl (ProcessAMCacheProgramKey k) \<and> emissions_of (ProcessAMCacheProgramKey k) = [])
   \<and> (v \<in> set (GetValues k) \<and> raises10_file mktime v \<longrightarrow>
      isl (ProcessAMCacheWin10FileKey mktime k)
      \<and> emissions_of (ProcessAMCacheWin10FileKey mktime k) = [])
   \<and> (v \<in> set (GetValues k) \<and> raises10_program mktime v \<longrightarrow>
      isl (ProcessAMCacheWin10ProgramKey mktime k)
      \<and> emissions_of (ProcessAMCacheWin10ProgramKey mktime k) = [])"
proof -
  have a: "isl (ProcessAMCacheFileKey k)"
    if "v \<in> set (GetValues k) \<and> raises8_file v"
  proof -
    have "\<And>st. isl (ProcessAMCacheFileKey_value v st)"
      using that file8_isl [of v _ "(AmcacheEventData_init, 0)"] by (simp add: raises8_file_def)
    then have "isl (for_values ProcessAMCacheFileKey_value (GetValues k) (AmcacheEventData_init, 0))"
      using that for_values_raises by fast
    then show ?thesis by (simp add: ProcessAMCacheFileKey_def isl_bind_err)
  qed
  have b: "isl (ProcessAMCacheProgramKey k)"
    if "v \<in> set (GetValues k) \<and> raises8_program v"
  proof -
    have "\<And>st. isl (ProcessAMCacheProgramKey_value v st)"
      using that program8_isl [of v _ "(AmcacheProgramEventData_init, 0)"]
      by (simp add: raises8_program_def)
    then have "isl (for_values ProcessAMCacheProgramKey_value (GetValues k)
        (AmcacheProgramEventData_init, 0))"
      using that for_values_raises by fast
    then show ?thesis by (simp add: ProcessAMCacheProgramKey_def isl_bind_err)
  qed
  have c: "isl (ProcessAMCacheWin10FileKey mktime k)"
    if "v \<in> set (GetValues k) \<and> raises10_file mktime v"
  proof -
    have "\<And>st. isl (ProcessAMCacheWin10FileKey_value mktime v st)"
      using that file10_isl [of mktime v _ "(AmcacheEventData_init, None)"]
      by (simp add: raises10_file_def)
    then have "isl (for_values (ProcessAMCacheWin10FileKey_value mktime) (GetValues k)
        (AmcacheEventData_init, None))"
      using that for_values_raises by fast
    then show ?thesis by (simp add: ProcessAMCacheWin10FileKey_def isl_bind_err)
  qed
  have d: "isl (ProcessAMCacheWin10ProgramKey mktime k)"
    if "v \<in> set (GetValues k) \<and> raises10_program mktime v"
  proof -
    have "\<And>st. isl (ProcessAMCacheWin10ProgramKey_value mktime v st)"
      using that program10_isl [of mktime v _ "(AmcacheProgramEventData_init, None)"]
      by (simp add: raises10_program_def)
    then have "isl (for_values (ProcessAMCacheWin10ProgramKey_value mktime) (GetValues k)
        (AmcacheProgramEventData_init, None))"
      using that for_values_raises by fast
    then show ?thesis by (simp add: ProcessAMCacheWin10ProgramKey_def isl_bind_err)
  qed
  show ?thesis using a b c d by (simp add: isl_emissions_of)
qed

lemma malformed_values_raise:
  "raises8_file \<lparr>rv_name = AMCACHE_LANGUAGECODE, rv_data = DString ''abc''\<rparr>"
  "raises8_program \<lparr>rv_name = AMCACHE_P_NAME, rv_data = DInteger 5\<rparr>"
  "raises10_file timegm \<lparr>rv_name = ''LinkDate'', rv_data = DString ''15/45/2018''\<rparr>"
  "raises10_program timegm \<lparr>rv_name = ''Name'', rv_data = DInteger 5\<rparr>"
  by (simp_all add: raises8_file_def raises8_program_def raises10_file_def
      raises10_program_def ProcessAMCacheFileKey_value_def ProcessAMCacheProgramKey_value_def
      ProcessAMCacheWin10FileKey_value_def ProcessAMCacheWin10ProgramKey_value_def
      bind_err_def int_format_d_cases date_malformed)

theorem undecodable_value_aborts_record_witness:
  "\<lparr>rv_name = AMCACHE_LANGUAGECODE, rv_data = DString ''abc''\<rparr> \<in> set (GetValues text_language_key)
   \<and> isl (ProcessAMCacheFileKey text_language_key)
   \<and> \<lparr>rv_name = AMCACHE_P_NAME, rv_data = DInteger 5\<rparr> \<in> set (GetValues integer_name_key8)
   \<and> isl (ProcessAMCacheProgramKey integer_name_key8)
   \<and> \<lparr>rv_name = ''LinkDate'', rv_data = DString ''15/45/2018''\<rparr>
       \<in> set (GetValues malformed_linkdate_key)
   \<and> isl (ProcessAMCacheWin10FileKey timegm malformed_linkdate_key)
   \<and> \<lparr>rv_name = ''Name'', rv_data = DInteger 5\<rparr> \<in> set (GetValues integer_name_key10)
   \<and> isl (ProcessAMCacheWin10ProgramKey timegm integer_name_key10)"
proof -
  have m: "\<lparr>rv_name = AMCACHE_LANGUAGECODE, rv_data = DString ''abc''\<rparr>
        \<in> set (GetValues text_language_key)"
    "\<lparr>rv_name = AMCACHE_P_NAME, rv_data = DInteger 5\<rparr> \<in> set (GetValues integer_name_key8)"
    "\<lparr>rv_name = ''LinkDate'', rv_data = DString ''15/45/2018''\<rparr>
        \<in> set (GetValues malformed_linkdate_key)"
    "\<lparr>rv_name = ''Name'', rv_data = DInteger 5\<rparr> \<in> set (GetValues integer_name_key10)"
    by (simp_all add: text_language_key_def integer_name_key8_def malformed_linkdate_key_def
        integer_name_key10_def)
  show ?thesis
    using m malformed_values_raise
      undecodable_value_aborts_record [of
        "\<lparr>rv_name = AMCACHE_LANGUAGECODE, rv_data = DString ''abc''\<rparr>" text_language_key timegm]
      undecodable_value_aborts_record [of
        "\<lparr>rv_name = AMCACHE_P_NAME, rv_data = DInteger 5\<rparr>" integer_name_key8 timegm]
      undecodable_value_aborts_record [of
        "\<lparr>rv_name = ''LinkDate'', rv_data = DString ''15/45/2018''\<rparr>"
        malformed_linkdate_key timegm]
      undecodable_value_aborts_record [of
        "\<lparr>rv_name = ''Name'', rv_data = DInteger 5\<rparr>" integer_name_key10 timegm]
    by simp
qed

text \<open>
  The claim as the specification states it fails: a malformed \<^verbatim>\<open>LinkDate\<close> beside a valid
  path makes the decoder raise, so the Modification event of the key is not produced.
\<close>

theorem malformed_linkdate_aborts_record:
  "ProcessAMCacheWin10FileKey timegm malformed_linkdate_key = Inl ValueError
   \<and> emissions_of (ProcessAMCacheWin10FileKey timegm malformed_linkdate_key) = []"
  by (simp add: ProcessAMCacheWin10FileKey_def ProcessAMCacheWin10FileKey_value_def
      malformed_linkdate_key_def bind_err_def date_malformed emissions_of_def)

section \<open>Integer fields\<close>

lemma py_int_16_examples:
  "py_int 16 ''16'' = Inr 22"
  "py_int 16 ''1a'' = Inr 26"
  "py_int 16 ''zz'' = Inl ValueError"
  by code_simp+

text \<open>
  Claim C2, as the code has it. In the Windows 10 file decoder \<^verbatim>\<open>Language\<close> and \<^verbatim>\<open>Size\<close> keep
  an integer payload as it is; a string payload never passes \<^verbatim>\<open>'{:d}'.format\<close>, so it is
  always read in base 16: a non-empty string of hexadecimal digits yields its base-16
  value (\<^verbatim>\<open>'16'\<close> yields 22, \<^verbatim>\<open>'1a'\<close> yields 26) and a string that \<^verbatim>\<open>int(s, 16)\<close> rejects
  raises (\<^verbatim>\<open>'zz'\<close>). The Windows 8 fields \<^verbatim>\<open>3\<close> and \<^verbatim>\<open>6\<close> have no base-16 fallback: an integer
  payload is kept and every string payload raises \<^verbatim>\<open>ValueError\<close>.
\<close>

theorem integer_fields_as_decoded:
  "ProcessAMCacheWin10FileKey_value mktime \<lparr>rv_name = ''Language'', rv_data = DInteger n\<rparr> (ed, l)
     = Inr (ed\<lparr>languagecode := Some n\<rparr>, l)
   \<and> ProcessAMCacheWin10FileKey_value mktime \<lparr>rv_name = ''Size'', rv_data = DInteger n\<rparr> (ed, l)
     = Inr (ed\<lparr>filesize := Some n\<rparr>, l)
   \<and> (s \<noteq> [] \<and> (\<forall>c\<in>set s. digit_value c < 16) \<longrightarrow>
       ProcessAMCacheWin10FileKey_value mktime \<lparr>rv_name = ''Language'', rv_data = DString s\<rparr> (ed, l)
         = Inr (ed\<lparr>languagecode := Some (int (base16_value s))\<rparr>, l)
       \<and> ProcessAMCacheWin10FileKey_value mktime \<lparr>rv_name = ''Size'', rv_data = DString s\<rparr> (ed, l)
         = Inr (ed\<lparr>filesize := Some (int (base16_value s))\<rparr>, l))
   \<and> (isl (py_int 16 s) \<longrightarrow>
       ProcessAMCacheWin10FileKey_value mktime \<lparr>rv_name = ''Language'', rv_data = DString s\<rparr> (ed, l)
         = Inl ValueError
       \<and> ProcessAMCacheWin10FileKey_value mktime \<lparr>rv_name = ''Size'', rv_data = DString s\<rparr> (ed, l)
         = Inl ValueError)
   \<and> ProcessAMCacheFileKey_value \<lparr>rv_name = AMCACHE_LANGUAGECODE, rv_data = DInteger n\<rparr> (ed, t)
     = Inr (ed\<lparr>languagecode := Some n\<rparr>, t)
   \<and> ProcessAMCacheFileKey_value \<lparr>rv_name = AMCACHE_FILESIZE, rv_data = DInteger n\<rparr> (ed, t)
     = Inr (ed\<lparr>filesize := Some n\<rparr>, t)
   \<and> ProcessAMCacheFileKey_value \<lparr>rv_name = AMCACHE_LANGUAGECODE, rv_data = DString s\<rparr> (ed, t)
     = Inl ValueError
   \<and> ProcessAMCacheFileKey_value \<lparr>rv_name = AMCACHE_FILESIZE, rv_data = DString s\<rparr> (ed, t)
     = Inl ValueError"
proof -
  have hex: "py_int 16 s = Inr (int (base16_value s))"
    if "s \<noteq> [] \<and> (\<forall>c\<in>set s. digit_value c < 16)"
    using that py_int_digits [of s 16] by (simp add: base16_value_def)
  have err: "py_int 16 s = Inl ValueError" if "isl (py_int 16 s)"
  proof (cases "py_int 16 s")
    case (Inl e)
    have "e = ValueError"
      using Inl
      by (auto simp add: py_int_def split: prod.splits list.splits option.splits if_splits)
    then show ?thesis using Inl by simp
  next
    case (Inr n)
    then show ?thesis using that by simp
  qed
  show ?thesis
    using hex err
    by (auto simp add: ProcessAMCacheWin10FileKey_value_def ProcessAMCacheFileKey_value_def
        int_format_d_cases int_format_d_except_hex_cases bind_err_simps)
qed

theorem integer_fields_as_decoded_witness:
  "ProcessAMCacheWin10FileKey_value timegm \<lparr>rv_name = ''Language'', rv_data = DString ''1a''\<rparr>
       (AmcacheEventData_init, None)
     = Inr (AmcacheEventData_init\<lparr>languagecode := Some 26\<rparr>, None)
   \<and> ProcessAMCacheWin10FileKey_value timegm \<lparr>rv_name = ''Size'', rv_data = DString ''zz''\<rparr>
       (AmcacheEventData_init, None)
     = Inl ValueError"
proof -
  have h1: "''1a'' \<noteq> [] \<and> (\<forall>c\<in>set ''1a''. digit_value c < 16)"
    by (simp add: digit_value_def)
  have h2: "isl (py_int 16 ''zz'')"
    by (simp add: py_int_16_examples)
  have v: "base16_value ''1a'' = 26"
    by (simp add: base16_value_def digit_value_def)
  show ?thesis
    using h1 h2 v
      integer_fields_as_decoded [of timegm 0 AmcacheEventData_init None "''1a''" 0]
      integer_fields_as_decoded [of timegm 0 AmcacheEventData_init None "''zz''" 0]
    by simp
qed

text \<open>
  The claim as the specification states it fails twice: under the Windows 8 name \<^verbatim>\<open>3\<close> the
  text \<^verbatim>\<open>'1a'\<close> raises instead of yielding 26, and under the Windows 10 name \<^verbatim>\<open>Language\<close> the
  text \<^verbatim>\<open>'16'\<close> yields 22 instead of 16.
\<close>

theorem integer_text_not_decimal_first:
  "ProcessAMCacheFileKey hex_language_key8 = Inl ValueError
   \<and> ProcessAMCacheWin10FileKey timegm decimal_text_language_key10
     = Inr [(DateTimeValuesEvent (Filetime 131580000000000000) TIME_DESCRIPTION_MODIFICATION,
             FileData (AmcacheEventData_init\<lparr>languagecode := Some 22\<rparr>))]"
  by (simp add: ProcessAMCacheFileKey_def ProcessAMCacheFileKey_value_def
      ProcessAMCacheWin10FileKey_def ProcessAMCacheWin10FileKey_value_def
      hex_language_key8_def decimal_text_language_key10_def
      int_format_d_cases int_format_d_except_hex_cases bind_err_simps py_int_16_examples)

section \<open>The hash with its prefix\<close>

lemma file8_returns:
  assumes "decodable8_file k"
  shows "\<exists>ed t. for_values ProcessAMCacheFileKey_value (GetValues k) (AmcacheEventData_init, 0)
            = Inr (ed, t)"
proof -
  have "\<not> isl (ProcessAMCacheFileKey_value v st)" if "v \<in> set (GetValues k)" for v st
    using that assms file8_isl [of v st "(AmcacheEventData_init, 0)"]
    by (auto simp add: raises8_file_def decodable8_file_def)
  then have "\<not> isl (for_values ProcessAMCacheFileKey_value (GetValues k)
      (AmcacheEventData_init, 0))"
    by (rule for_values_returns)
  then show ?thesis
    by (cases "for_values ProcessAMCacheFileKey_value (GetValues k) (AmcacheEventData_init, 0)")
       auto
qed

lemma file10_returns:
  assumes "decodable10_file mktime k"
  shows "\<exists>ed l. for_values (ProcessAMCacheWin10FileKey_value mktime) (GetValues k)
            (AmcacheEventData_init, None) = Inr (ed, l)"
proof -
  have "\<not> isl (ProcessAMCacheWin10FileKey_value mktime v st)"
    if "v \<in> set (GetValues k)" for v st
    using that assms file10_isl [of mktime v st "(AmcacheEventData_init, None)"]
    by (auto simp add: raises10_file_def decodable10_file_def)
  then have "\<not> isl (for_values (ProcessAMCacheWin10FileKey_value mktime) (GetValues k)
      (AmcacheEventData_init, None))"
    by (rule for_values_returns)
  then show ?thesis
    by (cases "for_values (ProcessAMCacheWin10FileKey_value mktime) (GetValues k)
          (AmcacheEventData_init, None)") auto
qed





lemma if_truthy_events:
  "(if truthy x then (case x of None \<Rightarrow> [] | Some n \<Rightarrow> [f n]) else []) = events_if_truthy x f"
  by (cases x) simp_all


lemma file_key_events_alt:
  "file_key_events ed t =
     (DateTimeValuesEvent (Filetime t) TIME_DESCRIPTION_MODIFICATION, FileData ed)
     # events_if_truthy (createdts ed)
         (\<lambda>n. (DateTimeValuesEvent (Filetime n) TIME_DESCRIPTION_CREATION, FileData ed))
     @ events_if_truthy (lastmodifiedts ed)
         (\<lambda>n. (DateTimeValuesEvent (Filetime n) TIME_DESCRIPTION_MODIFICATION, FileData ed))
     @ events_if_truthy (linkerts ed)
         (\<lambda>n. (DateTimeValuesEvent (PosixTime n) TIME_DESCRIPTION_CHANGE, FileData ed))"
  unfolding file_key_events_def if_truthy_events by simp

lemma file10_events_alt:
  "ProcessAMCacheWin10FileKey mktime k =
     bind_err
       (for_values (ProcessAMCacheWin10FileKey_value mktime) (GetValues k)
          (AmcacheEventData_init, None))
       (\<lambda>(ed, l).
          Inr ((DateTimeValuesEvent (last_written_time k) TIME_DESCRIPTION_MODIFICATION,
                FileData ed)
               # events_if_truthy l
                   (\<lambda>n. (DateTimeValuesEvent (PosixTime n) TIME_DESCRIPTION_CREATION,
                     FileData ed))))"
  unfolding ProcessAMCacheWin10FileKey_def if_truthy_events by simp



lemma example_keys_decode:
  "decodable8_file example_file8_key"
  "decodable10_file timegm example_file10_key"
  by (simp_all add: decodable8_file_def decodable10_file_def example_file8_key_def
      example_file10_key_def raises8_file_def raises10_file_def
      ProcessAMCacheFileKey_value_def ProcessAMCacheWin10FileKey_value_def
      bind_err_simps int_format_d_cases int_format_d_except_hex_cases date_example)




section \<open>List payloads of the Windows 8 program decoder\<close>

text \<open>
  Claim C5. A list payload is joined with newlines in source order under all five names.
  A payload of \<^verbatim>\<open>None\<close> leaves the field unset under \<^verbatim>\<open>7\<close> and \<^verbatim>\<open>Files\<close>, which test for it,
  but under \<^verbatim>\<open>d\<close>, \<^verbatim>\<open>11\<close> and \<^verbatim>\<open>12\<close>, which do not, \<^verbatim>\<open>'\n'.join(None)\<close> raises \<^verbatim>\<open>TypeError\<close> and
  the decoder produces nothing for the key.
\<close>

theorem none_list_payload_raises:
  "ProcessAMCacheProgramKey_value \<lparr>rv_name = AMCACHE_P_FILEPATHS, rv_data = DNone\<rparr> (ed, t)
     = Inl TypeError
   \<and> ProcessAMCacheProgramKey_value \<lparr>rv_name = AMCACHE_P_MSIPRODUCTCODE, rv_data = DNone\<rparr> (ed, t)
     = Inl TypeError
   \<and> ProcessAMCacheProgramKey_value \<lparr>rv_name = AMCACHE_P_MSIPACKAGECODE, rv_data = DNone\<rparr> (ed, t)
     = Inl TypeError
   \<and> ProcessAMCacheProgramKey_value \<lparr>rv_name = AMCACHE_P_UNINSTALLKEY, rv_data = DNone\<rparr> (ed, t)
     = Inr (ed, t)
   \<and> ProcessAMCacheProgramKey_value \<lparr>rv_name = AMCACHE_P_FILES, rv_data = DNone\<rparr> (ed, t)
     = Inr (ed, t)
   \<and> ProcessAMCacheProgramKey_value \<lparr>rv_name = AMCACHE_P_UNINSTALLKEY, rv_data = DList xs\<rparr> (ed, t)
     = Inr (ed\<lparr>uninstallkey := Some (join_str [CHR 0x0A] xs)\<rparr>, t)
   \<and> ProcessAMCacheProgramKey_value \<lparr>rv_name = AMCACHE_P_FILEPATHS, rv_data = DList xs\<rparr> (ed, t)
     = Inr (ed\<lparr>filepaths := Some (join_str [CHR 0x0A] xs)\<rparr>, t)
   \<and> ProcessAMCacheProgramKey_value \<lparr>rv_name = AMCACHE_P_MSIPRODUCTCODE, rv_data = DList xs\<rparr> (ed, t)
     = Inr (ed\<lparr>msiproductcode := Some (join_str [CHR 0x0A] xs)\<rparr>, t)
   \<and> ProcessAMCacheProgramKey_value \<lparr>rv_name = AMCACHE_P_MSIPACKAGECODE, rv_data = DList xs\<rparr> (ed, t)
     = Inr (ed\<lparr>msipackagecode := Some (join_str [CHR 0x0A] xs)\<rparr>, t)
   \<and> ProcessAMCacheProgramKey_value \<lparr>rv_name = AMCACHE_P_FILES, rv_data = DList xs\<rparr> (ed, t)
     = Inr (ed\<lparr>files := Some (join_str [CHR 0x0A] xs)\<rparr>, t)
   \<and> ProcessAMCacheProgramKey none_filepaths_key = Inl TypeError
   \<and> Amcache8_ExtractEvents none_filepaths_key = Inl TypeError"
  by (simp add: ProcessAMCacheProgramKey_value_def ProcessAMCacheProgramKey_def
      Amcache8_ExtractEvents_def number_of_values_def startswith_def
      AMCACHE_ROOT_FILE_KEY_def AMCACHE_ROOT_PROGRAM_KEY_def
      none_filepaths_key_def bind_err_simps)

section \<open>The events of the Windows 8 file decoder\<close>

lemma file8_datetime_step:
  "ProcessAMCacheFileKey_value v st = Inr st' \<Longrightarrow>
   snd st' =
     (if rv_name v = AMCACHE_DATETIME
      then (case rv_data v of DInteger n \<Rightarrow> n | _ \<Rightarrow> 0)
      else snd st)"
  by (cases st; cases st'; cases "rv_data v")
     (auto simp add: ProcessAMCacheFileKey_value_def bind_err_simps int_format_d_cases
       split: if_splits)

lemma file8_createdts_step:
  "ProcessAMCacheFileKey_value v st = Inr st' \<Longrightarrow>
   createdts (fst st') =
     (if rv_name v = AMCACHE_CREATEDTS
      then (case rv_data v of DInteger n \<Rightarrow> Some n | _ \<Rightarrow> None)
      else createdts (fst st))"
  by (cases st; cases st'; cases "rv_data v")
     (auto simp add: ProcessAMCacheFileKey_value_def bind_err_simps int_format_d_cases
       split: if_splits)

lemma file8_lastmodifiedts_step:
  "ProcessAMCacheFileKey_value v st = Inr st' \<Longrightarrow>
   lastmodifiedts (fst st') =
     (if rv_name v = AMCACHE_LASTMODIFIEDTS
      then (case rv_data v of DInteger n \<Rightarrow> Some n | _ \<Rightarrow> None)
      else lastmodifiedts (fst st))"
  by (cases st; cases st'; cases "rv_data v")
     (auto simp add: ProcessAMCacheFileKey_value_def bind_err_simps int_format_d_cases
       split: if_splits)

lemma file8_datetime:
  assumes "for_values ProcessAMCacheFileKey_value (GetValues k) (AmcacheEventData_init, 0)
      = Inr (ed, t)"
  shows "t = amcache_datetime_of k"
proof -
  have "snd (ed, t) =
      (case find (\<lambda>v. rv_name v = AMCACHE_DATETIME) (rev (GetValues k)) of
         None \<Rightarrow> snd (AmcacheEventData_init, 0 :: int)
       | Some v \<Rightarrow> (case rv_data v of DInteger n \<Rightarrow> n | _ \<Rightarrow> 0))"
    using file8_datetime_step assms by (rule for_values_last)
  then show ?thesis
    by (auto simp add: amcache_datetime_of_def last_value_def
        split: option.splits data_object.splits)
qed

lemma file8_createdts:
  assumes "for_values ProcessAMCacheFileKey_value (GetValues k) (AmcacheEventData_init, 0)
      = Inr (ed, t)"
    and "last_value AMCACHE_CREATEDTS (GetValues k) = None
       \<or> last_value AMCACHE_CREATEDTS (GetValues k) = Some (DInteger 0)"
  shows "events_if_truthy (createdts ed) f = []"
proof -
  have "createdts (fst (ed, t)) =
      (case find (\<lambda>v. rv_name v = AMCACHE_CREATEDTS) (rev (GetValues k)) of
         None \<Rightarrow> createdts (fst (AmcacheEventData_init, 0 :: int))
       | Some v \<Rightarrow> (case rv_data v of DInteger n \<Rightarrow> Some n | _ \<Rightarrow> None))"
    using file8_createdts_step assms(1) by (rule for_values_last)
  then have "createdts ed = None \<or> createdts ed = Some 0"
    using assms(2)
    by (auto simp add: last_value_def AmcacheEventData_init_def split: option.splits)
  then show ?thesis by auto
qed

lemma file8_lastmodifiedts:
  assumes "for_values ProcessAMCacheFileKey_value (GetValues k) (AmcacheEventData_init, 0)
      = Inr (ed, t)"
    and "last_value AMCACHE_LASTMODIFIEDTS (GetValues k) = None
       \<or> last_value AMCACHE_LASTMODIFIEDTS (GetValues k) = Some (DInteger 0)"
  shows "events_if_truthy (lastmodifiedts ed) f = []"
proof -
  have "lastmodifiedts (fst (ed, t)) =
      (case find (\<lambda>v. rv_name v = AMCACHE_LASTMODIFIEDTS) (rev (GetValues k)) of
         None \<Rightarrow> lastmodifiedts (fst (AmcacheEventData_init, 0 :: int))
       | Some v \<Rightarrow> (case rv_data v of DInteger n \<Rightarrow> Some n | _ \<Rightarrow> None))"
    using file8_lastmodifiedts_step assms(1) by (rule for_values_last)
  then have "lastmodifiedts ed = None \<or> lastmodifiedts ed = Some 0"
    using assms(2)
    by (auto simp add: last_value_def AmcacheEventData_init_def split: option.splits)
  then show ?thesis by auto
qed

lemma file8_result:
  "ProcessAMCacheFileKey k = Inr ems \<Longrightarrow>
   \<exists>ed t. for_values ProcessAMCacheFileKey_value (GetValues k) (AmcacheEventData_init, 0)
            = Inr (ed, t) \<and> ems = file_key_events ed t"
  by (cases "for_values ProcessAMCacheFileKey_value (GetValues k) (AmcacheEventData_init, 0)")
     (auto simp add: ProcessAMCacheFileKey_def bind_err_simps)

lemma description_events_if_truthy:
  "e \<in> set (events_if_truthy x (\<lambda>n. (DateTimeValuesEvent (c n) d, r))) \<Longrightarrow> description_of e = d"
  by (cases x) (simp_all split: if_splits)

lemma tl_file_key_events:
  assumes "e \<in> set (tl (file_key_events ed t))"
  shows "(events_if_truthy (createdts ed)
            (\<lambda>n. (DateTimeValuesEvent (Filetime n) TIME_DESCRIPTION_CREATION, FileData ed)) \<noteq> []
          \<and> description_of e = TIME_DESCRIPTION_CREATION)
       \<or> (events_if_truthy (lastmodifiedts ed)
            (\<lambda>n. (DateTimeValuesEvent (Filetime n) TIME_DESCRIPTION_MODIFICATION, FileData ed)) \<noteq> []
          \<and> description_of e = TIME_DESCRIPTION_MODIFICATION)
       \<or> description_of e = TIME_DESCRIPTION_CHANGE"
proof -
  have "e \<in> set (events_if_truthy (createdts ed)
            (\<lambda>n. (DateTimeValuesEvent (Filetime n) TIME_DESCRIPTION_CREATION, FileData ed)))
      \<or> e \<in> set (events_if_truthy (lastmodifiedts ed)
            (\<lambda>n. (DateTimeValuesEvent (Filetime n) TIME_DESCRIPTION_MODIFICATION, FileData ed)))
      \<or> e \<in> set (events_if_truthy (linkerts ed)
            (\<lambda>n. (DateTimeValuesEvent (PosixTime n) TIME_DESCRIPTION_CHANGE, FileData ed)))"
    using assms by (simp add: file_key_events_alt)
  then show ?thesis
    using description_events_if_truthy by fastforce
qed

text \<open>
  Claim C3, as the code has it. For a key under the Windows 8 file prefix that has at least
  one value and decodes, the first event is a Modification event whose instant is the
  FILETIME of the value named \<^verbatim>\<open>17\<close> (0 when the key has no such value). The
  \<^verbatim>\<open>last_written_time\<close> of the key is never read: changing it changes nothing.
\<close>

theorem legacy_file_modification_event:
  assumes "number_of_values k \<noteq> 0"
    and "startswith (path k) AMCACHE_ROOT_FILE_KEY"
    and "decodable8_file k"
  shows "(\<exists>ed rest. Amcache8_ExtractEvents k =
            Inr ((DateTimeValuesEvent (Filetime (amcache_datetime_of k))
                    TIME_DESCRIPTION_MODIFICATION, FileData ed) # rest))
    \<and> Amcache8_ExtractEvents (k\<lparr>last_written_time := lwt\<rparr>) = Amcache8_ExtractEvents k"
proof -
  obtain ed t where r: "for_values ProcessAMCacheFileKey_value (GetValues k)
      (AmcacheEventData_init, 0) = Inr (ed, t)"
    using file8_returns [OF assms(3)] by blast
  have t: "t = amcache_datetime_of k" using r by (rule file8_datetime)
  have "Amcache8_ExtractEvents k = Inr (file_key_events ed t)"
    using assms(1,2) r
    by (simp add: Amcache8_ExtractEvents_def ProcessAMCacheFileKey_def bind_err_simps)
  then have a: "\<exists>ed rest. Amcache8_ExtractEvents k =
            Inr ((DateTimeValuesEvent (Filetime (amcache_datetime_of k))
                    TIME_DESCRIPTION_MODIFICATION, FileData ed) # rest)"
    unfolding file_key_events_alt t by blast
  have b: "Amcache8_ExtractEvents (k\<lparr>last_written_time := lwt\<rparr>) = Amcache8_ExtractEvents k"
    by (simp add: Amcache8_ExtractEvents_def ProcessAMCacheFileKey_def
        ProcessAMCacheProgramKey_def number_of_values_def)
  show ?thesis using a b by simp
qed

lemma example_file8_key_facts:
  "number_of_values example_file8_key \<noteq> 0"
  "startswith (path example_file8_key) AMCACHE_ROOT_FILE_KEY"
  "amcache_datetime_of example_file8_key = 131460650153024523"
  by (simp_all add: example_file8_key_def number_of_values_def startswith_def
      AMCACHE_ROOT_FILE_KEY_def amcache_datetime_of_def last_value_def)

theorem legacy_file_modification_event_witness:
  "number_of_values example_file8_key \<noteq> 0
   \<and> startswith (path example_file8_key) AMCACHE_ROOT_FILE_KEY
   \<and> decodable8_file example_file8_key
   \<and> (\<exists>ed rest. Amcache8_ExtractEvents example_file8_key =
          Inr ((DateTimeValuesEvent (Filetime 131460650153024523)
                  TIME_DESCRIPTION_MODIFICATION, FileData ed) # rest))
   \<and> Amcache8_ExtractEvents (example_file8_key\<lparr>last_written_time := Filetime 0\<rparr>)
       = Amcache8_ExtractEvents example_file8_key"
  using example_file8_key_facts example_keys_decode(1)
    legacy_file_modification_event [OF example_file8_key_facts(1,2) example_keys_decode(1),
      of "Filetime 0"]
  by simp

text \<open>
  The claim as the specification states it fails: the key below was last written at
  FILETIME 131580000000000000, and no event of the decoder has that instant; the
  Modification event carries value \<^verbatim>\<open>17\<close>.
\<close>

theorem legacy_file_ignores_last_written_time:
  "last_written_time example_file8_key = Filetime 131580000000000000
   \<and> Amcache8_ExtractEvents example_file8_key =
       Inr [(DateTimeValuesEvent (Filetime 131460650153024523) TIME_DESCRIPTION_MODIFICATION,
             FileData (AmcacheEventData_init
               \<lparr>full_path := Some ''c:/users/user/idafree50.tmp'',
                sha1 := Some ''82274eef0911'',
                linkerts := Some 708992537,
                createdts := Some 131460650151772758\<rparr>)),
            (DateTimeValuesEvent (Filetime 131460650151772758) TIME_DESCRIPTION_CREATION,
             FileData (AmcacheEventData_init
               \<lparr>full_path := Some ''c:/users/user/idafree50.tmp'',
                sha1 := Some ''82274eef0911'',
                linkerts := Some 708992537,
                createdts := Some 131460650151772758\<rparr>)),
            (DateTimeValuesEvent (PosixTime 708992537) TIME_DESCRIPTION_CHANGE,
             FileData (AmcacheEventData_init
               \<lparr>full_path := Some ''c:/users/user/idafree50.tmp'',
                sha1 := Some ''82274eef0911'',
                linkerts := Some 708992537,
                createdts := Some 131460650151772758\<rparr>))]"
  by (simp add: Amcache8_ExtractEvents_def ProcessAMCacheFileKey_def
      ProcessAMCacheFileKey_value_def file_key_events_alt example_file8_key_def
      number_of_values_def startswith_def AMCACHE_ROOT_FILE_KEY_def AmcacheEventData_init_def
      bind_err_simps int_format_d_cases)

text \<open>
  Claim C4, as the code has it. A created (\<^verbatim>\<open>12\<close>) or last-modified (\<^verbatim>\<open>11\<close>) FILETIME that is
  zero or absent produces no event: no Creation event at all, and no Modification event
  after the first one. The timestamp of the record itself (\<^verbatim>\<open>17\<close>) is not guarded: when it
  is zero or absent and the key decodes, the first event is still produced, a Modification
  event at FILETIME 0.
\<close>

theorem legacy_file_zero_filetimes:
  "(last_value AMCACHE_CREATEDTS (GetValues k) = None
      \<or> last_value AMCACHE_CREATEDTS (GetValues k) = Some (DInteger 0) \<longrightarrow>
      (\<forall>e\<in>set (emissions_of (ProcessAMCacheFileKey k)).
         description_of e \<noteq> TIME_DESCRIPTION_CREATION))
   \<and> (last_value AMCACHE_LASTMODIFIEDTS (GetValues k) = None
      \<or> last_value AMCACHE_LASTMODIFIEDTS (GetValues k) = Some (DInteger 0) \<longrightarrow>
      (\<forall>e\<in>set (tl (emissions_of (ProcessAMCacheFileKey k))).
         description_of e \<noteq> TIME_DESCRIPTION_MODIFICATION))
   \<and> (decodable8_file k
       \<and> (last_value AMCACHE_DATETIME (GetValues k) = None
          \<or> last_value AMCACHE_DATETIME (GetValues k) = Some (DInteger 0)) \<longrightarrow>
      (\<exists>ed rest. ProcessAMCacheFileKey k =
         Inr ((DateTimeValuesEvent (Filetime 0) TIME_DESCRIPTION_MODIFICATION, FileData ed)
              # rest)))"
proof (intro conjI impI)
  assume a: "last_value AMCACHE_CREATEDTS (GetValues k) = None
      \<or> last_value AMCACHE_CREATEDTS (GetValues k) = Some (DInteger 0)"
  show "\<forall>e\<in>set (emissions_of (ProcessAMCacheFileKey k)).
         description_of e \<noteq> TIME_DESCRIPTION_CREATION"
  proof (cases "ProcessAMCacheFileKey k")
    case (Inl e)
    then show ?thesis by (simp add: emissions_of_def)
  next
    case (Inr ems)
    then obtain ed t where r: "for_values ProcessAMCacheFileKey_value (GetValues k)
        (AmcacheEventData_init, 0) = Inr (ed, t)" and e: "ems = file_key_events ed t"
      using file8_result by blast
    have "description_of x \<noteq> TIME_DESCRIPTION_CREATION" if "x \<in> set ems" for x
    proof -
      have "x \<in> set (tl ems) \<or> description_of x = TIME_DESCRIPTION_MODIFICATION"
        using that e by (auto simp add: file_key_events_alt)
      then show ?thesis
        using tl_file_key_events [of x ed t] e
          file8_createdts [OF r a, of "\<lambda>n. (DateTimeValuesEvent (Filetime n)
            TIME_DESCRIPTION_CREATION, FileData ed)"]
        by auto
    qed
    then show ?thesis using Inr by (simp add: emissions_of_def)
  qed
next
  assume a: "last_value AMCACHE_LASTMODIFIEDTS (GetValues k) = None
      \<or> last_value AMCACHE_LASTMODIFIEDTS (GetValues k) = Some (DInteger 0)"
  show "\<forall>e\<in>set (tl (emissions_of (ProcessAMCacheFileKey k))).
         description_of e \<noteq> TIME_DESCRIPTION_MODIFICATION"
  proof (cases "ProcessAMCacheFileKey k")
    case (Inl e)
    then show ?thesis by (simp add: emissions_of_def)
  next
    case (Inr ems)
    then obtain ed t where r: "for_values ProcessAMCacheFileKey_value (GetValues k)
        (AmcacheEventData_init, 0) = Inr (ed, t)" and e: "ems = file_key_events ed t"
      using file8_result by blast
    have "description_of x \<noteq> TIME_DESCRIPTION_MODIFICATION" if "x \<in> set (tl ems)" for x
      using that tl_file_key_events [of x ed t] e
        file8_lastmodifiedts [OF r a, of "\<lambda>n. (DateTimeValuesEvent (Filetime n)
          TIME_DESCRIPTION_MODIFICATION, FileData ed)"]
      by auto
    then show ?thesis using Inr by (simp add: emissions_of_def)
  qed
next
  assume a: "decodable8_file k
       \<and> (last_value AMCACHE_DATETIME (GetValues k) = None
          \<or> last_value AMCACHE_DATETIME (GetValues k) = Some (DInteger 0))"
  then obtain ed t where r: "for_values ProcessAMCacheFileKey_value (GetValues k)
      (AmcacheEventData_init, 0) = Inr (ed, t)"
    using file8_returns by blast
  have "t = amcache_datetime_of k" using r by (rule file8_datetime)
  then have "t = 0" using a by (auto simp add: amcache_datetime_of_def)
  then have "ProcessAMCacheFileKey k = Inr (file_key_events ed 0)"
    using r by (simp add: ProcessAMCacheFileKey_def bind_err_simps)
  then show "\<exists>ed rest. ProcessAMCacheFileKey k =
         Inr ((DateTimeValuesEvent (Filetime 0) TIME_DESCRIPTION_MODIFICATION, FileData ed)
              # rest)"
    unfolding file_key_events_alt by blast
qed

lemma zero_timestamp_key_facts:
  "last_value AMCACHE_CREATEDTS (GetValues zero_timestamp_key) = Some (DInteger 0)"
  "last_value AMCACHE_LASTMODIFIEDTS (GetValues zero_timestamp_key) = None"
  "last_value AMCACHE_DATETIME (GetValues zero_timestamp_key) = Some (DInteger 0)"
  "decodable8_file zero_timestamp_key"
  by (simp_all add: zero_timestamp_key_def last_value_def decodable8_file_def raises8_file_def
      ProcessAMCacheFileKey_value_def bind_err_simps int_format_d_cases)

theorem legacy_file_zero_filetimes_witness:
  "last_value AMCACHE_CREATEDTS (GetValues zero_timestamp_key) = Some (DInteger 0)
   \<and> last_value AMCACHE_LASTMODIFIEDTS (GetValues zero_timestamp_key) = None
   \<and> last_value AMCACHE_DATETIME (GetValues zero_timestamp_key) = Some (DInteger 0)
   \<and> decodable8_file zero_timestamp_key
   \<and> list_all (\<lambda>e. description_of e \<noteq> TIME_DESCRIPTION_CREATION)
         (emissions_of (ProcessAMCacheFileKey zero_timestamp_key))
   \<and> list_all (\<lambda>e. description_of e \<noteq> TIME_DESCRIPTION_MODIFICATION)
         (tl (emissions_of (ProcessAMCacheFileKey zero_timestamp_key)))
   \<and> (\<exists>ed rest. ProcessAMCacheFileKey zero_timestamp_key =
         Inr ((DateTimeValuesEvent (Filetime 0) TIME_DESCRIPTION_MODIFICATION, FileData ed)
              # rest))"
  using zero_timestamp_key_facts legacy_file_zero_filetimes [of zero_timestamp_key]
  by (simp add: list_all_iff)

text \<open>
  The claim as the specification states it fails for the timestamp of the record: with
  value \<^verbatim>\<open>17\<close> equal to zero the decoder still produces the Modification event, at
  FILETIME 0. The created timestamp, also zero, produces nothing.
\<close>

theorem zero_record_filetime_is_emitted:
  "ProcessAMCacheFileKey zero_timestamp_key =
     Inr [(DateTimeValuesEvent (Filetime 0) TIME_DESCRIPTION_MODIFICATION,
           FileData (AmcacheEventData_init
             \<lparr>full_path := Some ''c:/users/user/idafree50.tmp'', createdts := Some 0\<rparr>))]"
  by (simp add: ProcessAMCacheFileKey_def ProcessAMCacheFileKey_value_def file_key_events_alt
      zero_timestamp_key_def AmcacheEventData_init_def bind_err_simps int_format_d_cases)

section \<open>The date variables of the Windows 10 decoders\<close>

lemma program10_returns:
  assumes "decodable10_program mktime k"
  shows "\<exists>ed i. for_values (ProcessAMCacheWin10ProgramKey_value mktime) (GetValues k)
            (AmcacheProgramEventData_init, None) = Inr (ed, i)"
proof -
  have "\<not> isl (ProcessAMCacheWin10ProgramKey_value mktime v st)"
    if "v \<in> set (GetValues k)" for v st
    using that assms program10_isl [of mktime v st "(AmcacheProgramEventData_init, None)"]
    by (auto simp add: raises10_program_def decodable10_program_def)
  then have "\<not> isl (for_values (ProcessAMCacheWin10ProgramKey_value mktime) (GetValues k)
      (AmcacheProgramEventData_init, None))"
    by (rule for_values_returns)
  then show ?thesis
    by (cases "for_values (ProcessAMCacheWin10ProgramKey_value mktime) (GetValues k)
          (AmcacheProgramEventData_init, None)") auto
qed

lemma program10_installdate_step:
  "ProcessAMCacheWin10ProgramKey_value mktime v st = Inr st' \<Longrightarrow>
   snd st' = (if nonempty_date ''InstallDate'' v then parsed_date mktime v else snd st)"
  by (cases st; cases st'; cases "rv_data v";
      cases "date_string_to_int mktime (case rv_data v of DString s \<Rightarrow> s | _ \<Rightarrow> [])")
     (auto simp add: ProcessAMCacheWin10ProgramKey_value_def nonempty_date_def parsed_date_def
       bind_err_simps int_format_d_cases split: if_splits)

lemma file10_linkdate_step:
  "ProcessAMCacheWin10FileKey_value mktime v st = Inr st' \<Longrightarrow>
   snd st' = (if nonempty_date ''LinkDate'' v then parsed_date mktime v else snd st)"
  by (cases st; cases st'; cases "rv_data v";
      cases "date_string_to_int mktime (case rv_data v of DString s \<Rightarrow> s | _ \<Rightarrow> [])";
      cases "py_int 16 (case rv_data v of DString s \<Rightarrow> s | _ \<Rightarrow> [])")
     (auto simp add: ProcessAMCacheWin10FileKey_value_def nonempty_date_def parsed_date_def
       bind_err_simps int_format_d_except_hex_cases split: if_splits)

lemma program10_installdate:
  assumes "for_values (ProcessAMCacheWin10ProgramKey_value mktime) vs
      (AmcacheProgramEventData_init, None) = Inr (ed, i)"
  shows "i = last_date mktime ''InstallDate'' vs"
proof -
  have "snd (ed, i) =
      (case find (nonempty_date ''InstallDate'') (rev vs) of
         None \<Rightarrow> snd (AmcacheProgramEventData_init, None :: int option)
       | Some v \<Rightarrow> parsed_date mktime v)"
    using program10_installdate_step assms by (rule for_values_last)
  then show ?thesis by (simp add: last_date_def split: option.splits)
qed

lemma file10_linkdate:
  assumes "for_values (ProcessAMCacheWin10FileKey_value mktime) vs
      (AmcacheEventData_init, None) = Inr (ed, l)"
  shows "l = last_date mktime ''LinkDate'' vs"
proof -
  have "snd (ed, l) =
      (case find (nonempty_date ''LinkDate'') (rev vs) of
         None \<Rightarrow> snd (AmcacheEventData_init, None :: int option)
       | Some v \<Rightarrow> parsed_date mktime v)"
    using file10_linkdate_step assms by (rule for_values_last)
  then show ?thesis by (simp add: last_date_def split: option.splits)
qed

lemma program10_parsed:
  assumes "nonempty_date ''InstallDate'' v" and "\<not> raises10_program mktime v"
  shows "\<exists>n. parsed_date mktime v = Some n"
  using assms
  by (cases "rv_data v";
      cases "date_string_to_int mktime (case rv_data v of DString s \<Rightarrow> s | _ \<Rightarrow> [])")
     (auto simp add: raises10_program_def ProcessAMCacheWin10ProgramKey_value_def
       nonempty_date_def parsed_date_def bind_err_simps)

lemma find_SomeD: "find P xs = Some x \<Longrightarrow> P x \<and> x \<in> set xs"
  by (induction xs) (auto split: if_splits)

lemma last_date_some:
  assumes "decodable10_program mktime k"
    and "\<exists>v\<in>set (GetValues k). nonempty_date ''InstallDate'' v"
  shows "\<exists>n. last_date mktime ''InstallDate'' (GetValues k) = Some n"
proof -
  obtain v where f: "find (nonempty_date ''InstallDate'') (rev (GetValues k)) = Some v"
    using assms(2) by (cases "find (nonempty_date ''InstallDate'') (rev (GetValues k))")
      (auto simp add: find_None_iff)
  then have "v \<in> set (GetValues k)" "nonempty_date ''InstallDate'' v"
    using find_SomeD [of "nonempty_date ''InstallDate''" "rev (GetValues k)" v] by simp_all
  then show ?thesis
    using f assms(1) program10_parsed [of v mktime]
    by (auto simp add: last_date_def decodable10_program_def)
qed

lemma last_date_none:
  assumes "\<forall>v\<in>set vs. \<not> nonempty_date n v"
  shows "last_date mktime n vs = None"
proof -
  have "find (nonempty_date n) (rev vs) = None"
    using assms by (simp add: find_None_iff)
  then show ?thesis by (simp add: last_date_def)
qed

lemma program10_result:
  assumes "for_values (ProcessAMCacheWin10ProgramKey_value mktime) (GetValues k)
      (AmcacheProgramEventData_init, None) = Inr (ed, i)"
  shows "ProcessAMCacheWin10ProgramKey mktime k =
     Inr ((DateTimeValuesEvent (last_written_time k) TIME_DESCRIPTION_INSTALLATION,
           ProgramData ed)
          # (case i of
               None \<Rightarrow> []
             | Some n \<Rightarrow> [(DateTimeValuesEvent (PosixTime n) TIME_DESCRIPTION_INSTALLATION,
                           ProgramData ed)]))"
  using assms by (simp add: ProcessAMCacheWin10ProgramKey_def bind_err_simps)

text \<open>
  Claim C7, as the code has it. For a key with at least one value that \<^verbatim>\<open>ExtractEvents\<close> hands
  to the Windows 10 program decoder and that decodes: when some \<^verbatim>\<open>InstallDate\<close> value is not the
  empty string there are exactly two events, both Installation, on one record, the first at
  the \<^verbatim>\<open>last_written_time\<close> of the key and the second at the parsed date; when every
  \<^verbatim>\<open>InstallDate\<close> value is the empty string, or there is none, there is exactly the first event.
\<close>

theorem win10_program_installation_events:
  assumes "number_of_values k \<noteq> 0"
    and "startswith (path k) AMCACHE_ROOT_WIN10_PROGRAM_KEY"
    and "\<not> startswith (path k) AMCACHE_ROOT_WIN10_FILE_KEY"
    and "decodable10_program mktime k"
  shows "((\<exists>v\<in>set (GetValues k). nonempty_date ''InstallDate'' v) \<longrightarrow>
      (\<exists>ed n. last_date mktime ''InstallDate'' (GetValues k) = Some n
         \<and> Amcache10_ExtractEvents mktime k =
             Inr [(DateTimeValuesEvent (last_written_time k) TIME_DESCRIPTION_INSTALLATION,
                   ProgramData ed),
                  (DateTimeValuesEvent (PosixTime n) TIME_DESCRIPTION_INSTALLATION,
                   ProgramData ed)]))
    \<and> ((\<forall>v\<in>set (GetValues k). \<not> nonempty_date ''InstallDate'' v) \<longrightarrow>
      (\<exists>ed. Amcache10_ExtractEvents mktime k =
             Inr [(DateTimeValuesEvent (last_written_time k) TIME_DESCRIPTION_INSTALLATION,
                   ProgramData ed)]))"
proof -
  obtain ed i where r: "for_values (ProcessAMCacheWin10ProgramKey_value mktime) (GetValues k)
      (AmcacheProgramEventData_init, None) = Inr (ed, i)"
    using program10_returns [OF assms(4)] by blast
  have i: "i = last_date mktime ''InstallDate'' (GetValues k)"
    using r by (rule program10_installdate)
  have e: "Amcache10_ExtractEvents mktime k =
     Inr ((DateTimeValuesEvent (last_written_time k) TIME_DESCRIPTION_INSTALLATION,
           ProgramData ed)
          # (case i of
               None \<Rightarrow> []
             | Some n \<Rightarrow> [(DateTimeValuesEvent (PosixTime n) TIME_DESCRIPTION_INSTALLATION,
                           ProgramData ed)]))"
    using assms(1,2,3) program10_result [OF r] by (simp add: Amcache10_ExtractEvents_def)
  show ?thesis
  proof (intro conjI impI)
    assume "\<exists>v\<in>set (GetValues k). nonempty_date ''InstallDate'' v"
    then obtain n where "last_date mktime ''InstallDate'' (GetValues k) = Some n"
      using last_date_some [OF assms(4)] by blast
    then show "\<exists>ed n. last_date mktime ''InstallDate'' (GetValues k) = Some n
         \<and> Amcache10_ExtractEvents mktime k =
             Inr [(DateTimeValuesEvent (last_written_time k) TIME_DESCRIPTION_INSTALLATION,
                   ProgramData ed),
                  (DateTimeValuesEvent (PosixTime n) TIME_DESCRIPTION_INSTALLATION,
                   ProgramData ed)]"
      using e i by simp
  next
    assume "\<forall>v\<in>set (GetValues k). \<not> nonempty_date ''InstallDate'' v"
    then have "last_date mktime ''InstallDate'' (GetValues k) = None"
      by (rule last_date_none)
    then show "\<exists>ed. Amcache10_ExtractEvents mktime k =
             Inr [(DateTimeValuesEvent (last_written_time k) TIME_DESCRIPTION_INSTALLATION,
                   ProgramData ed)]"
      using e i by simp
  qed
qed

lemma example_program10_key_facts:
  "number_of_values example_program10_key \<noteq> 0"
  "startswith (path example_program10_key) AMCACHE_ROOT_WIN10_PROGRAM_KEY"
  "\<not> startswith (path example_program10_key) AMCACHE_ROOT_WIN10_FILE_KEY"
  "decodable10_program timegm example_program10_key"
  "\<exists>v\<in>set (GetValues example_program10_key). nonempty_date ''InstallDate'' v"
  "last_date timegm ''InstallDate'' (GetValues example_program10_key) = Some 1516010400"
  by (simp_all add: example_program10_key_def number_of_values_def startswith_def
      AMCACHE_ROOT_WIN10_PROGRAM_KEY_def AMCACHE_ROOT_WIN10_FILE_KEY_def
      decodable10_program_def raises10_program_def ProcessAMCacheWin10ProgramKey_value_def
      nonempty_date_def last_date_def parsed_date_def bind_err_simps int_format_d_cases
      date_example)

lemma empty_install_key_facts:
  "number_of_values empty_install_key \<noteq> 0"
  "startswith (path empty_install_key) AMCACHE_ROOT_WIN10_PROGRAM_KEY"
  "\<not> startswith (path empty_install_key) AMCACHE_ROOT_WIN10_FILE_KEY"
  "decodable10_program timegm empty_install_key"
  "\<forall>v\<in>set (GetValues empty_install_key). \<not> nonempty_date ''InstallDate'' v"
  by (simp_all add: empty_install_key_def number_of_values_def startswith_def
      AMCACHE_ROOT_WIN10_PROGRAM_KEY_def AMCACHE_ROOT_WIN10_FILE_KEY_def
      decodable10_program_def raises10_program_def ProcessAMCacheWin10ProgramKey_value_def
      nonempty_date_def bind_err_simps)

theorem win10_program_installation_events_witness:
  "number_of_values example_program10_key \<noteq> 0
   \<and> startswith (path example_program10_key) AMCACHE_ROOT_WIN10_PROGRAM_KEY
   \<and> \<not> startswith (path example_program10_key) AMCACHE_ROOT_WIN10_FILE_KEY
   \<and> decodable10_program timegm example_program10_key
   \<and> (\<exists>v\<in>set (GetValues example_program10_key). nonempty_date ''InstallDate'' v)
   \<and> (\<exists>ed. Amcache10_ExtractEvents timegm example_program10_key =
          Inr [(DateTimeValuesEvent (Filetime 131580000000000000)
                  TIME_DESCRIPTION_INSTALLATION, ProgramData ed),
               (DateTimeValuesEvent (PosixTime 1516010400)
                  TIME_DESCRIPTION_INSTALLATION, ProgramData ed)])
   \<and> number_of_values empty_install_key \<noteq> 0
   \<and> startswith (path empty_install_key) AMCACHE_ROOT_WIN10_PROGRAM_KEY
   \<and> \<not> startswith (path empty_install_key) AMCACHE_ROOT_WIN10_FILE_KEY
   \<and> decodable10_program timegm empty_install_key
   \<and> list_all (\<lambda>v. \<not> nonempty_date ''InstallDate'' v) (GetValues empty_install_key)
   \<and> (\<exists>ed. Amcache10_ExtractEvents timegm empty_install_key =
          Inr [(DateTimeValuesEvent (Filetime 131580000000000000)
                  TIME_DESCRIPTION_INSTALLATION, ProgramData ed)])"
proof -
  have a: "\<exists>ed. Amcache10_ExtractEvents timegm example_program10_key =
          Inr [(DateTimeValuesEvent (Filetime 131580000000000000)
                  TIME_DESCRIPTION_INSTALLATION, ProgramData ed),
               (DateTimeValuesEvent (PosixTime 1516010400)
                  TIME_DESCRIPTION_INSTALLATION, ProgramData ed)]"
    using example_program10_key_facts(5,6)
      win10_program_installation_events [OF example_program10_key_facts(1,2,3,4)]
    by (auto simp add: example_program10_key_def)
  have b: "\<exists>ed. Amcache10_ExtractEvents timegm empty_install_key =
          Inr [(DateTimeValuesEvent (Filetime 131580000000000000)
                  TIME_DESCRIPTION_INSTALLATION, ProgramData ed)]"
    using empty_install_key_facts(5)
      win10_program_installation_events [OF empty_install_key_facts(1,2,3,4)]
    by (auto simp add: empty_install_key_def)
  show ?thesis
    using a b example_program10_key_facts(1,2,3,4,5) empty_install_key_facts
    by (simp add: list_all_iff)
qed

text \<open>
  The claim as the specification states it fails for a key that does not decode: beside a
  valid, non-empty \<^verbatim>\<open>InstallDate\<close> the integer under \<^verbatim>\<open>Name\<close> raises, and there is no event at
  all instead of two.
\<close>

theorem valid_installdate_without_events:
  "date_string_to_int timegm ''01/15/2018 10:00:00'' = Inr 1516010400
   \<and> number_of_values integer_name_key10 \<noteq> 0
   \<and> Amcache10_ExtractEvents timegm integer_name_key10 = Inl ValueError"
  by (simp add: date_example Amcache10_ExtractEvents_def ProcessAMCacheWin10ProgramKey_def
      ProcessAMCacheWin10ProgramKey_value_def integer_name_key10_def number_of_values_def
      startswith_def AMCACHE_ROOT_WIN10_PROGRAM_KEY_def AMCACHE_ROOT_WIN10_FILE_KEY_def
      bind_err_simps)

section \<open>The two tests of a parsed date\<close>

lemma file10_result_of:
  "ProcessAMCacheWin10FileKey mktime k = Inr ems \<Longrightarrow>
   \<exists>ed l. for_values (ProcessAMCacheWin10FileKey_value mktime) (GetValues k)
            (AmcacheEventData_init, None) = Inr (ed, l)
      \<and> ems = (DateTimeValuesEvent (last_written_time k) TIME_DESCRIPTION_MODIFICATION,
                FileData ed)
               # events_if_truthy l
                   (\<lambda>n. (DateTimeValuesEvent (PosixTime n) TIME_DESCRIPTION_CREATION,
                     FileData ed))"
  by (cases "for_values (ProcessAMCacheWin10FileKey_value mktime) (GetValues k)
        (AmcacheEventData_init, None)")
     (auto simp add: file10_events_alt bind_err_simps)

text \<open>
  Claim C10, as the code has it. The file decoder tests the parsed \<^verbatim>\<open>LinkDate\<close> for truth: a
  key whose \<^verbatim>\<open>LinkDate\<close> parses to 0 produces no Creation event, and when it decodes it
  produces the Modification event alone. The program decoder tests the parsed
  \<^verbatim>\<open>InstallDate\<close> against \<^verbatim>\<open>None\<close> only: a key that decodes and whose \<^verbatim>\<open>InstallDate\<close> parses to 0
  produces the second Installation event, at Unix time 0.
\<close>

theorem win10_zero_date_gates:
  "(last_date mktime ''LinkDate'' (GetValues k) = Some 0 \<longrightarrow>
      (\<forall>e\<in>set (emissions_of (ProcessAMCacheWin10FileKey mktime k)).
         description_of e \<noteq> TIME_DESCRIPTION_CREATION))
   \<and> (decodable10_file mktime k \<and> last_date mktime ''LinkDate'' (GetValues k) = Some 0 \<longrightarrow>
      (\<exists>ed. ProcessAMCacheWin10FileKey mktime k =
         Inr [(DateTimeValuesEvent (last_written_time k) TIME_DESCRIPTION_MODIFICATION,
               FileData ed)]))
   \<and> (decodable10_program mktime k
       \<and> last_date mktime ''InstallDate'' (GetValues k) = Some 0 \<longrightarrow>
      (\<exists>ed. ProcessAMCacheWin10ProgramKey mktime k =
         Inr [(DateTimeValuesEvent (last_written_time k) TIME_DESCRIPTION_INSTALLATION,
               ProgramData ed),
              (DateTimeValuesEvent (PosixTime 0) TIME_DESCRIPTION_INSTALLATION,
               ProgramData ed)]))"
proof (intro conjI impI)
  assume a: "last_date mktime ''LinkDate'' (GetValues k) = Some 0"
  show "\<forall>e\<in>set (emissions_of (ProcessAMCacheWin10FileKey mktime k)).
         description_of e \<noteq> TIME_DESCRIPTION_CREATION"
  proof (cases "ProcessAMCacheWin10FileKey mktime k")
    case (Inl e)
    then show ?thesis by (simp add: emissions_of_def)
  next
    case (Inr ems)
    then obtain ed l where r: "for_values (ProcessAMCacheWin10FileKey_value mktime)
        (GetValues k) (AmcacheEventData_init, None) = Inr (ed, l)"
      and e: "ems = (DateTimeValuesEvent (last_written_time k) TIME_DESCRIPTION_MODIFICATION,
                FileData ed)
               # events_if_truthy l
                   (\<lambda>n. (DateTimeValuesEvent (PosixTime n) TIME_DESCRIPTION_CREATION,
                     FileData ed))"
      using file10_result_of by blast
    have "l = Some 0" using file10_linkdate [OF r] a by simp
    then show ?thesis using Inr e by (simp add: emissions_of_def)
  qed
next
  assume a: "decodable10_file mktime k \<and> last_date mktime ''LinkDate'' (GetValues k) = Some 0"
  then obtain ed l where r: "for_values (ProcessAMCacheWin10FileKey_value mktime)
      (GetValues k) (AmcacheEventData_init, None) = Inr (ed, l)"
    using file10_returns by blast
  have "l = Some 0" using file10_linkdate [OF r] a by simp
  then show "\<exists>ed. ProcessAMCacheWin10FileKey mktime k =
         Inr [(DateTimeValuesEvent (last_written_time k) TIME_DESCRIPTION_MODIFICATION,
               FileData ed)]"
    using r by (simp add: file10_events_alt bind_err_simps)
next
  assume a: "decodable10_program mktime k
       \<and> last_date mktime ''InstallDate'' (GetValues k) = Some 0"
  then obtain ed i where r: "for_values (ProcessAMCacheWin10ProgramKey_value mktime)
      (GetValues k) (AmcacheProgramEventData_init, None) = Inr (ed, i)"
    using program10_returns by blast
  have "i = Some 0" using program10_installdate [OF r] a by simp
  then show "\<exists>ed. ProcessAMCacheWin10ProgramKey mktime k =
         Inr [(DateTimeValuesEvent (last_written_time k) TIME_DESCRIPTION_INSTALLATION,
               ProgramData ed),
              (DateTimeValuesEvent (PosixTime 0) TIME_DESCRIPTION_INSTALLATION,
               ProgramData ed)]"
    using program10_result [OF r] by simp
qed

lemma epoch_key_facts:
  "last_date timegm ''LinkDate'' (GetValues epoch_link_key) = Some 0"
  "decodable10_file timegm epoch_link_key"
  "last_date timegm ''InstallDate'' (GetValues epoch_install_key) = Some 0"
  "decodable10_program timegm epoch_install_key"
  "last_date timegm ''InstallDate'' (GetValues epoch_install_integer_name_key) = Some 0"
  by (simp_all add: epoch_link_key_def epoch_install_key_def
      epoch_install_integer_name_key_def last_date_def
      nonempty_date_def parsed_date_def decodable10_file_def decodable10_program_def
      raises10_file_def raises10_program_def ProcessAMCacheWin10FileKey_value_def
      ProcessAMCacheWin10ProgramKey_value_def bind_err_simps date_epoch)

theorem win10_zero_date_gates_witness:
  "last_date timegm ''LinkDate'' (GetValues epoch_link_key) = Some 0
   \<and> decodable10_file timegm epoch_link_key
   \<and> list_all (\<lambda>e. description_of e \<noteq> TIME_DESCRIPTION_CREATION)
         (emissions_of (ProcessAMCacheWin10FileKey timegm epoch_link_key))
   \<and> (\<exists>ed. ProcessAMCacheWin10FileKey timegm epoch_link_key =
         Inr [(DateTimeValuesEvent (Filetime 131580000000000000)
                 TIME_DESCRIPTION_MODIFICATION, FileData ed)])
   \<and> last_date timegm ''InstallDate'' (GetValues epoch_install_key) = Some 0
   \<and> decodable10_program timegm epoch_install_key
   \<and> (\<exists>ed. ProcessAMCacheWin10ProgramKey timegm epoch_install_key =
         Inr [(DateTimeValuesEvent (Filetime 131580000000000000)
                 TIME_DESCRIPTION_INSTALLATION, ProgramData ed),
              (DateTimeValuesEvent (PosixTime 0) TIME_DESCRIPTION_INSTALLATION,
               ProgramData ed)])"
proof -
  have l: "last_written_time epoch_link_key = Filetime 131580000000000000"
    "last_written_time epoch_install_key = Filetime 131580000000000000"
    by (simp_all add: epoch_link_key_def epoch_install_key_def)
  show ?thesis
    using l epoch_key_facts(1,2,3,4)
      win10_zero_date_gates [of timegm epoch_link_key]
      win10_zero_date_gates [of timegm epoch_install_key]
    by (simp add: list_all_iff)
qed

text \<open>
  The claim as the specification states it fails for a program key that does not decode:
  its \<^verbatim>\<open>InstallDate\<close> parses to 0, the integer under \<^verbatim>\<open>Name\<close> raises, and the second Installation
  event is not produced.
\<close>

theorem epoch_installdate_without_events:
  "last_date timegm ''InstallDate'' (GetValues epoch_install_integer_name_key) = Some 0
   \<and> ProcessAMCacheWin10ProgramKey timegm epoch_install_integer_name_key = Inl ValueError"
proof -
  have "ProcessAMCacheWin10ProgramKey timegm epoch_install_integer_name_key = Inl ValueError"
    by (simp add: ProcessAMCacheWin10ProgramKey_def ProcessAMCacheWin10ProgramKey_value_def
        epoch_install_integer_name_key_def bind_err_simps date_epoch)
  then show ?thesis using epoch_key_facts(5) by simp
qed

end
